theory Spec2Isabelle
  imports Main
begin

section \<open>Results, errors and panics\<close>

text \<open>
  A Go \<open>error\<close> is a value that is either nil or carries a message: it is modelled as
  \<open>string option\<close>, the message being what \<open>err.Error()\<close> returns. A function that
  returns \<open>(T, error)\<close> and cannot panic returns \<open>string + T\<close>. A function that can also
  panic, or contains the unbounded polling loop, returns \<open>fault + T\<close>.
\<close>

datatype fault = Err string | Panic string | OutOfFuel

definition HasSuffix :: "string \<Rightarrow> string \<Rightarrow> bool" where
  "HasSuffix s suffix =
     (length suffix \<le> length s \<and> drop (length s - length suffix) s = suffix)"


definition doesNotExist :: "string option \<Rightarrow> bool" where
  "doesNotExist err =
     (case err of None \<Rightarrow> False | Some m \<Rightarrow> HasSuffix m ''not found'')"

section \<open>Resource objects\<close>

text \<open>
  A label set (a Go \<open>map[string]string\<close>) is kept as the list of its pairs in the order of
  the keys, the order in which the JSON encoder writes a map: equal maps are equal lists.
\<close>

type_synonym labelSet = "(string \<times> string) list"

record ObjectMeta =
  Name :: string
  Namespace :: string
  ResourceVersion :: string
  Labels :: labelSet

text \<open>
  Every API struct has the same shape: type information, the object's metadata, a spec and
  a status. The fields of a spec that the deployment code never reads are kept as one
  opaque string, so that two objects can differ outside the fields named here.
\<close>

record ('spec, 'status) Obj =
  APIVersion :: string
  Meta :: ObjectMeta
  Spec :: 'spec
  Status :: 'status

record ServicePort =
  PortName :: string
  NodePort :: int

record LoadBalancerIngress =
  IP :: string
  Hostname :: string

record ServiceSpec =
  Type :: string
  Ports :: "ServicePort list"
  ClusterIP :: string
  ServiceSpecRest :: string

record ServiceStatus =
  Ingress :: "LoadBalancerIngress list"

record ReplicationControllerSpec =
  Selector :: labelSet
  ReplicationControllerSpecRest :: string

type_synonym Service = "(ServiceSpec, ServiceStatus) Obj"
type_synonym ReplicationController = "(ReplicationControllerSpec, string) Obj"
type_synonym NamespaceT = "(string, string) Obj"
type_synonym Pod = "(string, string) Obj"

definition ServiceTypeLoadBalancer :: string where
  "ServiceTypeLoadBalancer = ''LoadBalancer''"

text \<open>The service that \<open>&api.Service{}\<close> allocates: every field has the zero value of its type.\<close>

definition emptyService :: Service where
  "emptyService =
     \<lparr>APIVersion = [],
      Meta = \<lparr>Name = [], Namespace = [], ResourceVersion = [], Labels = []\<rparr>,
      Spec = \<lparr>Type = [], Ports = [], ClusterIP = [], ServiceSpecRest = []\<rparr>,
      Status = \<lparr>Ingress = []\<rparr>\<rparr>"

text \<open>
  The kinds that the type switch of \<open>Deployment()\<close> enumerates, apart from the three that
  the deployment code treats specially.
\<close>

datatype OtherKind =
    ComponentStatus | ConfigMap | Endpoints | LimitRange | PersistentVolumeClaim
  | PersistentVolume | PodKind | ResourceQuota | Secret | ServiceAccount

datatype KubeObject =
    NamespaceObj NamespaceT
  | ServiceObj Service
  | ReplicationControllerObj ReplicationController
  | OtherObj OtherKind "(string, string) Obj"

fun GetObjectMeta :: "KubeObject \<Rightarrow> ObjectMeta" where
  "GetObjectMeta (NamespaceObj n) = Meta n"
| "GetObjectMeta (ServiceObj s) = Meta s"
| "GetObjectMeta (ReplicationControllerObj r) = Meta r"
| "GetObjectMeta (OtherObj k x) = Meta x"

text \<open>
  \<open>meta.SetResourceVersion(v)\<close> writes through to the object that \<open>meta\<close> was taken from;
  the model returns the changed object.
\<close>

fun SetResourceVersion :: "KubeObject \<Rightarrow> string \<Rightarrow> KubeObject" where
  "SetResourceVersion (NamespaceObj n) v =
     NamespaceObj (n\<lparr>Meta := (Meta n)\<lparr>ResourceVersion := v\<rparr>\<rparr>)"
| "SetResourceVersion (ServiceObj s) v =
     ServiceObj (s\<lparr>Meta := (Meta s)\<lparr>ResourceVersion := v\<rparr>\<rparr>)"
| "SetResourceVersion (ReplicationControllerObj r) v =
     ReplicationControllerObj (r\<lparr>Meta := (Meta r)\<lparr>ResourceVersion := v\<rparr>\<rparr>)"
| "SetResourceVersion (OtherObj k x) v =
     OtherObj k (x\<lparr>Meta := (Meta x)\<lparr>ResourceVersion := v\<rparr>\<rparr>)"

fun isNamespace :: "KubeObject \<Rightarrow> bool" where
  "isNamespace (NamespaceObj n) = True"
| "isNamespace _ = False"

fun KindName :: "KubeObject \<Rightarrow> string" where
  "KindName (NamespaceObj n) = ''Namespace''"
| "KindName (ServiceObj s) = ''Service''"
| "KindName (ReplicationControllerObj r) = ''ReplicationController''"
| "KindName (OtherObj ComponentStatus x) = ''ComponentStatus''"
| "KindName (OtherObj ConfigMap x) = ''ConfigMap''"
| "KindName (OtherObj Endpoints x) = ''Endpoints''"
| "KindName (OtherObj LimitRange x) = ''LimitRange''"
| "KindName (OtherObj PersistentVolumeClaim x) = ''PersistentVolumeClaim''"
| "KindName (OtherObj PersistentVolume x) = ''PersistentVolume''"
| "KindName (OtherObj PodKind x) = ''Pod''"
| "KindName (OtherObj ResourceQuota x) = ''ResourceQuota''"
| "KindName (OtherObj Secret x) = ''Secret''"
| "KindName (OtherObj ServiceAccount x) = ''ServiceAccount''"


text \<open>
  \<open>kube.Semantic.DeepEqual\<close> compares two objects field by field and takes a nil and an
  empty slice or map for equal. The model's lists and maps have no nil, so it is equality
  of the values.
\<close>

definition DeepEqual :: "KubeObject \<Rightarrow> KubeObject \<Rightarrow> bool" where
  "DeepEqual a b = (a = b)"

section \<open>The resource bundle\<close>




section \<open>Type information\<close>

record GroupVersionKind =
  Group :: string
  Version :: string
  Kind :: string

record RESTMapping =
  Resource :: string
  MappingGVK :: GroupVersionKind
  ScopeName :: string

definition RESTScopeNameNamespace :: string where
  "RESTScopeNameNamespace = ''namespace''"

definition IsEmpty :: "GroupVersionKind \<Rightarrow> bool" where
  "IsEmpty gvk = (length (Group gvk) = 0 \<and> length (Version gvk) = 0 \<and> length (Kind gvk) = 0)"

definition gvkString :: "GroupVersionKind \<Rightarrow> string" where
  "gvkString gvk = Group gvk @ ''/'' @ Version gvk @ '', Kind='' @ Kind gvk"

text \<open>
  The functions of the Kubernetes libraries that the deployment code calls and that do not
  talk to the cluster: the scheme and the REST mapper behind \<open>mapping\<close>, and the JSON
  encoder and the patch builder behind \<open>diff\<close>. They are parameters of the model.
\<close>

record kubelib =
  objectKind :: "KubeObject \<Rightarrow> string + GroupVersionKind"
  restMapping :: "GroupVersionKind \<Rightarrow> string + RESTMapping"
  jsonMarshal :: "KubeObject \<Rightarrow> string + string"
  createTwoWayMergePatch :: "string \<Rightarrow> string \<Rightarrow> KubeObject \<Rightarrow> string + string"

definition mapping :: "kubelib \<Rightarrow> KubeObject \<Rightarrow> string + RESTMapping" where
  "mapping L obj =
     (case objectKind L obj of
        Inl e \<Rightarrow> Inl e
      | Inr gvk \<Rightarrow>
          (case restMapping L gvk of
             Inl e \<Rightarrow> Inl (''could not create RESTMapping for '' @ gvkString gvk @ '': '' @ e)
           | Inr m \<Rightarrow> Inr m))"

definition isNamespaceScoped :: "RESTMapping \<Rightarrow> bool" where
  "isNamespaceScoped m = (ScopeName m = RESTScopeNameNamespace)"

definition diff :: "kubelib \<Rightarrow> KubeObject \<Rightarrow> KubeObject \<Rightarrow> string + string" where
  "diff L original modified =
     (case jsonMarshal L original of
        Inl e \<Rightarrow> Inl e
      | Inr origBytes \<Rightarrow>
          (case jsonMarshal L modified of
             Inl e \<Rightarrow> Inl e
           | Inr modBytes \<Rightarrow> createTwoWayMergePatch L origBytes modBytes original))"

section \<open>The cluster client and the observable effects\<close>

datatype Verb = GET | POST | PATCH string

datatype Body = NoBody | ObjectBody KubeObject | BytesBody string

record Request =
  verb :: Verb
  reqName :: string
  reqNamespace :: "string option"
  reqResource :: string
  params :: "(string \<times> string) list"
  body :: Body

definition StrategicMergePatchType :: string where
  "StrategicMergePatchType = ''application/strategic-merge-patch+json''"

definition newRequest :: "Verb \<Rightarrow> Request" where
  "newRequest v =
     \<lparr>verb = v, reqName = [], reqNamespace = None, reqResource = [], params = [], body = NoBody\<rparr>"

text \<open>A \<open>runtime.Object\<close> that a request returns may or may not be a \<open>KubeObject\<close>.\<close>

datatype RuntimeObject = IsKubeObject KubeObject | NotKubeObject

text \<open>
  The cluster is the environment of the program. Each operation of the client takes the
  state of the world \<open>'w\<close> and returns what the Go call returns, with the next state of the
  world.

  \<open>Services(ns).Get(name)\<close> of the client library allocates the service it returns before
  it sends the request, and decodes the answer into it: the pointer it returns is never
  nil, and when the request fails the object is the service as it was allocated, with
  every field empty. \<open>servicesGet\<close> returns both components of the Go pair, the object and
  the error, because the polling loop reads the object whether or not the error is nil.
\<close>

record 'w Client =
  namespacesCreate :: "NamespaceT \<Rightarrow> 'w \<Rightarrow> string option \<times> 'w"
  restDo :: "Request \<Rightarrow> 'w \<Rightarrow> (string + RuntimeObject) \<times> 'w"
  podsList :: "string \<Rightarrow> labelSet \<Rightarrow> 'w \<Rightarrow> (string + Pod list) \<times> 'w"
  podsDelete :: "string \<Rightarrow> string \<Rightarrow> 'w \<Rightarrow> string option \<times> 'w"
  servicesGet :: "string \<Rightarrow> string \<Rightarrow> 'w \<Rightarrow> (Service \<times> string option) \<times> 'w"

record 'w KubeCluster =
  Client :: "'w Client option"
  kubeContext :: string
  localkube :: bool

text \<open>Every call to the cluster, every printed line and every sleep is recorded, in order.\<close>

datatype event =
    NamespacesCreate NamespaceT "string option"
  | RestDo Request "string + RuntimeObject"
  | PodsList string labelSet "string + Pod list"
  | PodsDelete string string "string option"
  | ServicesGet string string Service "string option"
  | Printed string
  | Slept nat

record 'w state =
  world :: 'w
  trace :: "event list"

definition callNamespacesCreate ::
  "'w Client \<Rightarrow> NamespaceT \<Rightarrow> 'w state \<Rightarrow> string option \<times> 'w state" where
  "callNamespacesCreate cl ns st =
     (case namespacesCreate cl ns (world st) of
        (r, w) \<Rightarrow> (r, \<lparr>world = w, trace = trace st @ [NamespacesCreate ns r]\<rparr>))"

definition callRestDo ::
  "'w Client \<Rightarrow> Request \<Rightarrow> 'w state \<Rightarrow> (string + RuntimeObject) \<times> 'w state" where
  "callRestDo cl req st =
     (case restDo cl req (world st) of
        (r, w) \<Rightarrow> (r, \<lparr>world = w, trace = trace st @ [RestDo req r]\<rparr>))"

definition callPodsList ::
  "'w Client \<Rightarrow> string \<Rightarrow> labelSet \<Rightarrow> 'w state \<Rightarrow> (string + Pod list) \<times> 'w state" where
  "callPodsList cl ns sel st =
     (case podsList cl ns sel (world st) of
        (r, w) \<Rightarrow> (r, \<lparr>world = w, trace = trace st @ [PodsList ns sel r]\<rparr>))"

definition callPodsDelete ::
  "'w Client \<Rightarrow> string \<Rightarrow> string \<Rightarrow> 'w state \<Rightarrow> string option \<times> 'w state" where
  "callPodsDelete cl ns name st =
     (case podsDelete cl ns name (world st) of
        (r, w) \<Rightarrow> (r, \<lparr>world = w, trace = trace st @ [PodsDelete ns name r]\<rparr>))"

definition callServicesGet ::
  "'w Client \<Rightarrow> string \<Rightarrow> string \<Rightarrow> 'w state \<Rightarrow> (Service \<times> string option) \<times> 'w state" where
  "callServicesGet cl ns name st =
     (case servicesGet cl ns name (world st) of
        ((obj, err), w) \<Rightarrow> ((obj, err), \<lparr>world = w, trace = trace st @ [ServicesGet ns name obj err]\<rparr>))"

definition print :: "string \<Rightarrow> 'w state \<Rightarrow> 'w state" where
  "print line st = st\<lparr>trace := trace st @ [Printed line]\<rparr>"

definition sleep :: "nat \<Rightarrow> 'w state \<Rightarrow> 'w state" where
  "sleep ms st = st\<lparr>trace := trace st @ [Slept ms]\<rparr>"

section \<open>Requests against the cluster\<close>

definition setRequestObjectInfo :: "Request \<Rightarrow> string \<Rightarrow> RESTMapping \<Rightarrow> Request" where
  "setRequestObjectInfo req namespace m =
     (let req1 = (if isNamespaceScoped m then req\<lparr>reqNamespace := Some namespace\<rparr> else req)
      in req1\<lparr>reqResource := Resource m\<rparr>)"

definition AsKubeObject :: "RuntimeObject \<Rightarrow> string + KubeObject" where
  "AsKubeObject runtimeObj =
     (case runtimeObj of
        IsKubeObject kubeObj \<Rightarrow> Inr kubeObj
      | NotKubeObject \<Rightarrow> Inl ''was unable to use runtime.Object as deploy.KubeObject'')"

definition apostrophe :: string where
  "apostrophe = [CHR 0x27]"

text \<open>
  The parameters of \<open>resourceError\<close> are, in this order, the action, the namespace and the
  name. The mapping is a pointer and may be nil.
\<close>

definition resourceError ::
  "string \<Rightarrow> string \<Rightarrow> string \<Rightarrow> RESTMapping option \<Rightarrow> string \<Rightarrow> string" where
  "resourceError action namespace name m err =
     (if m = None \<or> IsEmpty (MappingGVK (the m))
      then ''could not '' @ action @ '' '' @ apostrophe @ namespace @ ''/'' @ name
             @ apostrophe @ '': '' @ err
      else ''could not '' @ action @ '' '' @ apostrophe @ namespace @ ''/'' @ name
             @ apostrophe @ '' ('' @ Kind (MappingGVK (the m)) @ ''): '' @ err)"

text \<open>
  \<open>get\<close>, \<open>create\<close> and \<open>update\<close> are reached through \<open>deploy\<close> only, with the mapping that
  \<open>mapping\<close> returned without error: their mapping is not nil.
\<close>

definition get ::
  "'w Client \<Rightarrow> string \<Rightarrow> string \<Rightarrow> bool \<Rightarrow> RESTMapping \<Rightarrow> 'w state
     \<Rightarrow> (string + KubeObject) \<times> 'w state" where
  "get cl namespace name export m st =
     (let req = setRequestObjectInfo ((newRequest GET)\<lparr>reqName := name\<rparr>) namespace m;
          req1 = (if export then req\<lparr>params := params req @ [(''export'', ''true'')]\<rparr> else req)
      in case callRestDo cl req1 st of
           (Inl err, st1) \<Rightarrow> (Inl (resourceError ''get'' namespace name (Some m) err), st1)
         | (Inr runtimeObj, st1) \<Rightarrow> (AsKubeObject runtimeObj, st1))"

definition create ::
  "'w Client \<Rightarrow> KubeObject \<Rightarrow> RESTMapping \<Rightarrow> 'w state \<Rightarrow> (string + KubeObject) \<times> 'w state" where
  "create cl obj m st =
     (let meta = GetObjectMeta obj;
          req = setRequestObjectInfo ((newRequest POST)\<lparr>body := ObjectBody obj\<rparr>) (Namespace meta) m
      in case callRestDo cl req st of
           (Inl err, st1) \<Rightarrow>
             (Inl (resourceError ''create'' (Name meta) (Namespace meta) (Some m) err), st1)
         | (Inr runtimeObj, st1) \<Rightarrow> (AsKubeObject runtimeObj, st1))"

text \<open>
  \<open>copyImmutables src dst\<close> writes into \<open>dst\<close>; the model returns the changed \<open>dst\<close>. The
  type assertion on \<open>dst\<close> panics when \<open>src\<close> is a service and \<open>dst\<close> is not. The objects of
  the model are never nil, so the guard on nil arguments has no branch here.
\<close>

definition copyImmutables :: "KubeObject \<Rightarrow> KubeObject \<Rightarrow> fault + KubeObject" where
  "copyImmutables src dst =
     (case src of
        ServiceObj s \<Rightarrow>
          (case dst of
             ServiceObj d \<Rightarrow> Inr (ServiceObj (d\<lparr>Spec := (Spec d)\<lparr>ClusterIP := ClusterIP (Spec s)\<rparr>\<rparr>))
           | _ \<Rightarrow> Inl (Panic ''interface conversion: KubeObject is not *api.Service''))
      | _ \<Rightarrow> Inr dst)"

definition errorOf :: "string + 'a \<Rightarrow> string option" where
  "errorOf r = (case r of Inl e \<Rightarrow> Some e | Inr x \<Rightarrow> None)"

definition liftError :: "string + 'a \<Rightarrow> fault + 'a" where
  "liftError r = (case r of Inl e \<Rightarrow> Inl (Err e) | Inr x \<Rightarrow> Inr x)"

text \<open>
  \<open>update\<close> returns what the Go function returns, the desired object as the function left
  it (its resource version and immutable fields are overwritten in place), and the state.
\<close>

definition update ::
  "kubelib \<Rightarrow> 'w Client \<Rightarrow> KubeObject \<Rightarrow> bool \<Rightarrow> RESTMapping \<Rightarrow> 'w state
     \<Rightarrow> (fault + KubeObject) \<times> KubeObject \<times> 'w state" where
  "update L cl obj createFlag m st =
     (let meta = GetObjectMeta obj
      in case get cl (Namespace meta) (Name meta) True m st of
           (r, st1) \<Rightarrow>
             if doesNotExist (errorOf r) \<and> createFlag
             then (case create cl obj m st1 of (r', st2) \<Rightarrow> (liftError r', obj, st2))
             else
               (case r of
                  Inl err \<Rightarrow> (Inl (Err err), obj, st1)
                | Inr deployed \<Rightarrow>
                    (let deployedVersion = ResourceVersion (GetObjectMeta deployed);
                         obj1 = SetResourceVersion obj deployedVersion
                     in case copyImmutables deployed obj1 of
                          Inl f \<Rightarrow> (Inl f, obj1, st1)
                        | Inr obj2 \<Rightarrow>
                            if DeepEqual obj2 deployed then (Inr deployed, obj2, st1)
                            else
                              (case diff L deployed obj2 of
                                 Inl err \<Rightarrow> (Inl (Err (''could not create diff: '' @ err)), obj2, st1)
                               | Inr patch \<Rightarrow>
                                   (let req = setRequestObjectInfo
                                                ((newRequest (PATCH StrategicMergePatchType))
                                                   \<lparr>reqName := Name meta, body := BytesBody patch\<rparr>)
                                                (Namespace meta) m
                                    in case callRestDo cl req st1 of
                                         (Inl err, st2) \<Rightarrow>
                                           (Inl (Err (resourceError ''update'' (Namespace meta)
                                                        (Name meta) (Some m) err)), obj2, st2)
                                       | (Inr runtimeObj, st2) \<Rightarrow>
                                           (liftError (AsKubeObject runtimeObj), obj2, st2))))))"

text \<open>
  \<open>deploy\<close> takes the object as a pointer that may be nil, and returns the error and the
  object as it left it.
\<close>

definition deploy ::
  "kubelib \<Rightarrow> 'w Client \<Rightarrow> KubeObject option \<Rightarrow> bool \<Rightarrow> 'w state
     \<Rightarrow> (fault + unit) \<times> KubeObject option \<times> 'w state" where
  "deploy L cl objOpt updateMode st =
     (case objOpt of
        None \<Rightarrow> (Inl (Err ''tried to deploy nil object''), None, st)
      | Some obj \<Rightarrow>
          (case mapping L obj of
             Inl err \<Rightarrow> (Inl (Err err), Some obj, st)
           | Inr m \<Rightarrow>
               if updateMode
               then (case update L cl obj True m st of
                       (Inl f, obj', st1) \<Rightarrow> (Inl f, Some obj', st1)
                     | (Inr x, obj', st1) \<Rightarrow> (Inr (), Some obj', st1))
               else (case create cl obj m st of
                       (Inl err, st1) \<Rightarrow> (Inl (Err err), Some obj, st1)
                     | (Inr x, st1) \<Rightarrow> (Inr (), Some obj, st1))))"

section \<open>Deleting the pods of a replication controller\<close>

fun deletePodItems :: "'w Client \<Rightarrow> Pod list \<Rightarrow> 'w state \<Rightarrow> string option \<times> 'w state" where
  "deletePodItems cl [] st = (None, st)"
| "deletePodItems cl (pod # pods) st =
     (case callPodsDelete cl (Namespace (Meta pod)) (Name (Meta pod)) st of
        (Some err, st1) \<Rightarrow> (Some err, st1)
      | (None, st1) \<Rightarrow> deletePodItems cl pods st1)"

definition deletePods ::
  "'w Client \<Rightarrow> ReplicationController option \<Rightarrow> 'w state \<Rightarrow> string option \<times> 'w state" where
  "deletePods cl rcOpt st =
     (case rcOpt of
        None \<Rightarrow> (Some ''rc was nil'', st)
      | Some rc \<Rightarrow>
          (case callPodsList cl (Namespace (Meta rc)) (Selector (Spec rc)) st of
             (Inl err, st1) \<Rightarrow> (Some err, st1)
           | (Inr items, st1) \<Rightarrow> deletePodItems cl items st1))"

section \<open>Deploying a bundle\<close>


definition backquote :: string where
  "backquote = [CHR 0x60]"

text \<open>
  The second loop of \<open>Deploy\<close>. It returns the objects as the loop left them: \<open>deploy\<close>
  writes into the object it is given, which belongs to the bundle.
\<close>

fun deployObjects ::
  "kubelib \<Rightarrow> 'w Client \<Rightarrow> bool \<Rightarrow> bool \<Rightarrow> KubeObject list \<Rightarrow> 'w state
     \<Rightarrow> (fault + unit) \<times> KubeObject list \<times> 'w state" where
  "deployObjects L cl updateMode deleteModifiedPods [] st = (Inr (), [], st)"
| "deployObjects L cl updateMode deleteModifiedPods (obj # objs) st =
     (if isNamespace obj
      then (case deployObjects L cl updateMode deleteModifiedPods objs st of
              (r, objs', st') \<Rightarrow> (r, obj # objs', st'))
      else
        (case deploy L cl (Some obj) updateMode st of
           (Inl f, objOpt, st1) \<Rightarrow> (Inl f, (case objOpt of Some obj' \<Rightarrow> obj' | None \<Rightarrow> obj) # objs, st1)
         | (Inr u, objOpt, st1) \<Rightarrow>
             (let obj' = (case objOpt of Some obj' \<Rightarrow> obj' | None \<Rightarrow> obj)
              in case obj' of
                   ReplicationControllerObj rc \<Rightarrow>
                     if deleteModifiedPods
                     then (case deletePods cl (Some rc) st1 of
                             (Some err, st2) \<Rightarrow>
                               (Inl (Err (''could not delete pods for rc '' @ backquote
                                          @ Namespace (Meta rc) @ ''/'' @ Name (Meta rc)
                                          @ backquote @ '': '' @ err)),
                                obj' # objs, st2)
                           | (None, st2) \<Rightarrow>
                               (case deployObjects L cl updateMode deleteModifiedPods objs st2 of
                                  (r, objs', st') \<Rightarrow> (r, obj' # objs', st')))
                     else (case deployObjects L cl updateMode deleteModifiedPods objs st1 of
                             (r, objs', st') \<Rightarrow> (r, obj' # objs', st'))
                 | _ \<Rightarrow>
                     (case deployObjects L cl updateMode deleteModifiedPods objs st1 of
                        (r, objs', st') \<Rightarrow> (r, obj' # objs', st')))))"

section \<open>Waiting for the load balancers\<close>

definition digitChar :: "nat \<Rightarrow> char" where
  "digitChar d = char_of (48 + d)"

fun showNat :: "nat \<Rightarrow> string" where
  "showNat n = (if n < 10 then [digitChar n] else showNat (n div 10) @ [digitChar (n mod 10)])"

definition showInt :: "int \<Rightarrow> string" where
  "showInt i = (if i < 0 then ''-'' @ showNat (nat (- i)) else showNat (nat i))"

definition newline :: string where
  "newline = [CHR 0x0A]"

definition tab :: string where
  "tab = [CHR 0x09]"

text \<open>The closure \<open>done\<close>: the map \<open>completed\<close> reads as false at a name it does not hold.\<close>

fun isDone :: "(string \<Rightarrow> bool) \<Rightarrow> KubeObject list \<Rightarrow> fault + bool" where
  "isDone completed [] = Inr True"
| "isDone completed (svcObj # rest) =
     (case svcObj of
        ServiceObj s \<Rightarrow>
          if Type (Spec s) = ServiceTypeLoadBalancer \<and> \<not> completed (Name (Meta s))
          then Inr False
          else isDone completed rest
      | _ \<Rightarrow> Inl (Panic ''interface conversion: KubeObject is not *api.Service''))"

fun printPorts :: "Service \<Rightarrow> ServicePort list \<Rightarrow> 'w state \<Rightarrow> 'w state" where
  "printPorts s [] st = st"
| "printPorts s (port # ports) st =
     printPorts s ports
       (print (apostrophe @ Namespace (Meta s) @ ''/'' @ Name (Meta s) @ apostrophe @ '' - ''
               @ PortName port @ '' available on localkube host port:'' @ tab @ '' ''
               @ showInt (NodePort port) @ newline) st)"

definition ingressHost :: "LoadBalancerIngress \<Rightarrow> string" where
  "ingressHost lb =
     (let host = Hostname lb
      in if length (IP lb) \<noteq> 0
         then (if length host = 0 then IP lb else host @ '' ('' @ IP lb @ '')'')
         else host)"

fun printIngress ::
  "Service \<Rightarrow> LoadBalancerIngress list \<Rightarrow> (string \<Rightarrow> bool) \<times> 'w state
     \<Rightarrow> (string \<Rightarrow> bool) \<times> 'w state" where
  "printIngress s [] (completed, st) = (completed, st)"
| "printIngress s (lb # lbs) (completed, st) =
     printIngress s lbs
       (completed(Name (Meta s) := True),
        print (''Service '' @ apostrophe @ Namespace (Meta s) @ ''/'' @ Name (Meta s) @ apostrophe
               @ '' available at: '' @ tab @ ingressHost lb @ newline) st)"

text \<open>
  The body of the inner loop for one load balancer service that is not completed. There is
  no \<open>continue\<close> after the line that reports a failed fetch: the object that
  \<open>Services(...).Get\<close> returned is read whether or not the error is nil.
\<close>

definition pollService ::
  "'w Client \<Rightarrow> bool \<Rightarrow> Service \<Rightarrow> (string \<Rightarrow> bool) \<times> 'w state
     \<Rightarrow> (fault + unit) \<times> (string \<Rightarrow> bool) \<times> 'w state" where
  "pollService cl isLocalkube s cs =
     (case cs of
        (completed, st) \<Rightarrow>
          (case callServicesGet cl (Namespace (Meta s)) (Name (Meta s)) st of
             ((clusterVers, err), st1) \<Rightarrow>
               (let st2 = (case err of
                             Some e \<Rightarrow>
                               print (''Error getting service '' @ backquote @ Name (Meta s)
                                      @ backquote @ '': '' @ e @ newline) st1
                           | None \<Rightarrow> st1)
                in if isLocalkube
                   then (let completed1 = completed(Name (Meta s) := True)
                         in case printIngress s (Ingress (Status clusterVers))
                                   (completed1, printPorts s (Ports (Spec clusterVers)) st2) of
                              (completed2, st3) \<Rightarrow> (Inr (), completed2, st3))
                   else (case printIngress s (Ingress (Status clusterVers)) (completed, st2) of
                           (completed2, st3) \<Rightarrow> (Inr (), completed2, st3)))))"

text \<open>One pass of the inner loop over the services.\<close>

fun pollRound ::
  "'w Client \<Rightarrow> bool \<Rightarrow> KubeObject list \<Rightarrow> (string \<Rightarrow> bool) \<times> 'w state
     \<Rightarrow> (fault + unit) \<times> (string \<Rightarrow> bool) \<times> 'w state" where
  "pollRound cl isLocalkube [] cs = (Inr (), cs)"
| "pollRound cl isLocalkube (svcObj # rest) cs =
     (case svcObj of
        ServiceObj s \<Rightarrow>
          if Type (Spec s) = ServiceTypeLoadBalancer \<and> \<not> fst cs (Name (Meta s))
          then (case pollService cl isLocalkube s cs of
                  (Inl f, cs1) \<Rightarrow> (Inl f, cs1)
                | (Inr u, cs1) \<Rightarrow> pollRound cl isLocalkube rest cs1)
          else pollRound cl isLocalkube rest cs
      | _ \<Rightarrow> (Inl (Panic ''interface conversion: KubeObject is not *api.Service''), cs))"

text \<open>
  The outer loop has no bound in the source. The model runs it on fuel, one unit for each
  pass: with no fuel left it has not returned, and says so.
\<close>

fun pollLoop ::
  "nat \<Rightarrow> 'w Client \<Rightarrow> KubeObject list \<Rightarrow> bool \<Rightarrow> bool \<Rightarrow> (string \<Rightarrow> bool) \<Rightarrow> 'w state
     \<Rightarrow> (fault + unit) \<times> 'w state" where
  "pollLoop 0 cl services isLocalkube first completed st = (Inl OutOfFuel, st)"
| "pollLoop (Suc fuel) cl services isLocalkube first completed st =
     (case isDone completed services of
        Inl f \<Rightarrow> (Inl f, st)
      | Inr True \<Rightarrow> (Inr (), st)
      | Inr False \<Rightarrow>
          (let st1 = (if first then print (''Waiting for load balancer deployment...'' @ newline) st
                      else st)
           in case pollRound cl isLocalkube services (completed, st1) of
                (Inl f, completed1, st2) \<Rightarrow> (Inl f, st2)
              | (Inr u, completed1, st2) \<Rightarrow>
                  pollLoop fuel cl services isLocalkube False completed1 (sleep 250 st2)))"

definition printLoadBalancers ::
  "'w Client \<Rightarrow> KubeObject list \<Rightarrow> bool \<Rightarrow> nat \<Rightarrow> 'w state \<Rightarrow> (fault + unit) \<times> 'w state" where
  "printLoadBalancers cl services isLocalkube fuel st =
     (if length services = 0 then (Inr (), st)
      else pollLoop fuel cl services isLocalkube True (\<lambda>name. False) st)"


section \<open>Sample inputs\<close>

text \<open>
  A cluster that answers REST requests from a script, one answer for each request and
  ``not found'' once the script is used up, and that gives fixed answers to the other
  calls. The state of the world is what is left of the script.
\<close>

definition scriptedClient ::
  "string option \<Rightarrow> (string + Pod list) \<Rightarrow> string option \<Rightarrow> (Service \<times> string option)
     \<Rightarrow> ((string + RuntimeObject) list) Client" where
  "scriptedClient nsErr pods delErr svc =
     \<lparr>namespacesCreate = (\<lambda>ns w. (nsErr, w)),
      restDo = (\<lambda>req w. case w of [] \<Rightarrow> (Inl ''not found'', []) | r # rs \<Rightarrow> (r, rs)),
      podsList = (\<lambda>ns sel w. (pods, w)),
      podsDelete = (\<lambda>ns name w. (delErr, w)),
      servicesGet = (\<lambda>ns name w. (svc, w))\<rparr>"

definition quietClient :: "((string + RuntimeObject) list) Client" where
  "quietClient = scriptedClient None (Inr []) None (emptyService, None)"

definition sampleLib :: kubelib where
  "sampleLib =
     \<lparr>objectKind = (\<lambda>obj. Inr \<lparr>Group = [], Version = ''v1'', Kind = KindName obj\<rparr>),
      restMapping = (\<lambda>gvk. Inr \<lparr>Resource = Kind gvk, MappingGVK = gvk,
                                ScopeName = ''namespace''\<rparr>),
      jsonMarshal = (\<lambda>obj. Inr (KindName obj @ ''/'' @ Name (GetObjectMeta obj))),
      createTwoWayMergePatch = (\<lambda>origBytes modBytes original. Inr modBytes)\<rparr>"

definition serviceMapping :: RESTMapping where
  "serviceMapping =
     \<lparr>Resource = ''services'',
      MappingGVK = \<lparr>Group = [], Version = ''v1'', Kind = ''Service''\<rparr>,
      ScopeName = ''namespace''\<rparr>"

text \<open>
  A second library for the samples, whose patch shows both of the documents it was
  computed from: the encoding of an object is its kind, its name and its spec without
  the cluster address, and the patch reads ``original -> modified''.
\<close>

definition specText :: "KubeObject \<Rightarrow> string" where
  "specText obj =
     (case obj of
        NamespaceObj n \<Rightarrow> Spec n
      | ServiceObj s \<Rightarrow> Type (Spec s) @ '' '' @ ServiceSpecRest (Spec s)
      | ReplicationControllerObj r \<Rightarrow> ReplicationControllerSpecRest (Spec r)
      | OtherObj k x \<Rightarrow> Spec x)"

definition diffLib :: kubelib where
  "diffLib =
     \<lparr>objectKind = objectKind sampleLib,
      restMapping = restMapping sampleLib,
      jsonMarshal = (\<lambda>obj. Inr (KindName obj @ ''/'' @ Name (GetObjectMeta obj)
                                @ '' {'' @ specText obj @ ''}'')),
      createTwoWayMergePatch = (\<lambda>origBytes modBytes original. Inr (origBytes @ '' -> '' @ modBytes))\<rparr>"

definition sampleMeta :: "string \<Rightarrow> string \<Rightarrow> string \<Rightarrow> ObjectMeta" where
  "sampleMeta ns name rv =
     \<lparr>Name = name, Namespace = ns, ResourceVersion = rv, Labels = []\<rparr>"

definition sampleService :: "string \<Rightarrow> string \<Rightarrow> string \<Rightarrow> string \<Rightarrow> string \<Rightarrow> Service" where
  "sampleService rv ip ty rest name =
     \<lparr>APIVersion = ''v1'', Meta = sampleMeta ''prod'' name rv,
      Spec = \<lparr>Type = ty, Ports = [], ClusterIP = ip, ServiceSpecRest = rest\<rparr>,
      Status = \<lparr>Ingress = []\<rparr>\<rparr>"

definition sampleRC :: ReplicationController where
  "sampleRC =
     \<lparr>APIVersion = ''v1'', Meta = sampleMeta ''prod'' ''web-rc'' [],
      Spec = \<lparr>Selector = [(''app'', ''web'')], ReplicationControllerSpecRest = ''replicas: 2''\<rparr>,
      Status = []\<rparr>"

definition sampleNamespace :: NamespaceT where
  "sampleNamespace =
     \<lparr>APIVersion = ''v1'', Meta = sampleMeta [] ''prod'' [], Spec = [], Status = []\<rparr>"

definition samplePod :: "string \<Rightarrow> Pod" where
  "samplePod name =
     \<lparr>APIVersion = ''v1'', Meta = sampleMeta ''prod'' name [], Spec = [], Status = []\<rparr>"

definition emptyState :: "'w \<Rightarrow> 'w state" where
  "emptyState w = \<lparr>world = w, trace = []\<rparr>"

section \<open>Reading a trace\<close>

text \<open>The events a run has added to a trace, and the requests among them that write.\<close>

fun isPatch :: "event \<Rightarrow> bool" where
  "isPatch (RestDo req resp) = (case verb req of PATCH t \<Rightarrow> True | _ \<Rightarrow> False)"
| "isPatch _ = False"

definition patchRequests :: "event list \<Rightarrow> nat" where
  "patchRequests evs = length (filter isPatch evs)"

definition since :: "'w state \<Rightarrow> 'w state \<Rightarrow> event list" where
  "since st st' = drop (length (trace st)) (trace st')"

text \<open>
  The live object is the desired object as it was sent, apart from what the server owns:
  the resource version and, for a service, the cluster address. The server has stored the
  desired state, and nothing else has changed the object since.
\<close>

definition storedAsSent :: "KubeObject \<Rightarrow> KubeObject \<Rightarrow> bool" where
  "storedAsSent live desired =
     (case (live, desired) of
        (ServiceObj l, ServiceObj d) \<Rightarrow>
          l = d\<lparr>Meta := (Meta d)\<lparr>ResourceVersion := ResourceVersion (Meta l)\<rparr>,
                Spec := (Spec d)\<lparr>ClusterIP := ClusterIP (Spec l)\<rparr>\<rparr>
      | _ \<Rightarrow> live = SetResourceVersion desired (ResourceVersion (GetObjectMeta live)))"

text \<open>
  A run that starts in \<open>st\<close> and ends in \<open>st'\<close> only adds events to the trace;
  \<open>extends Q st st'\<close> says so, and that every event it has added satisfies \<open>Q\<close>.
\<close>

definition extends :: "(event \<Rightarrow> bool) \<Rightarrow> 'w state \<Rightarrow> 'w state \<Rightarrow> bool" where
  "extends Q st st' = (\<exists>evs. trace st' = trace st @ evs \<and> list_all Q evs)"

text \<open>
  What the convergence monitor may do for a list of services: fetch a service of the list
  that has type LoadBalancer, print, and sleep.
\<close>

fun monitorEvent :: "KubeObject list \<Rightarrow> event \<Rightarrow> bool" where
  "monitorEvent services (ServicesGet ns name obj err) =
     list_ex (\<lambda>svcObj. case svcObj of
                ServiceObj s \<Rightarrow> Type (Spec s) = ServiceTypeLoadBalancer
                                \<and> ns = Namespace (Meta s) \<and> name = Name (Meta s)
              | _ \<Rightarrow> False) services"
| "monitorEvent services (Printed line) = True"
| "monitorEvent services (Slept ms) = True"
| "monitorEvent services _ = False"














text \<open>What the second loop of \<open>Deploy\<close> returns and the state it ends in, without the objects.\<close>

definition deployOutcome ::
  "kubelib \<Rightarrow> 'w Client \<Rightarrow> bool \<Rightarrow> bool \<Rightarrow> KubeObject list \<Rightarrow> 'w state
     \<Rightarrow> (fault + unit) \<times> 'w state" where
  "deployOutcome L cl updateMode deleteModifiedPods objs st =
     (case deployObjects L cl updateMode deleteModifiedPods objs st of
        (r, objs', st') \<Rightarrow> (r, st'))"

section \<open>Basic facts\<close>

lemmas call_defs =
  callRestDo_def callNamespacesCreate_def callPodsList_def callPodsDelete_def callServicesGet_def

lemmas request_defs =
  setRequestObjectInfo_def newRequest_def isNamespaceScoped_def RESTScopeNameNamespace_def

lemmas sample_defs =
  scriptedClient_def quietClient_def sampleLib_def serviceMapping_def sampleMeta_def
  sampleService_def sampleRC_def sampleNamespace_def samplePod_def emptyState_def
  specText_def diffLib_def

lemma HasSuffix_iff: "HasSuffix s t \<longleftrightarrow> (\<exists>q. s = q @ t)"
proof
  assume h: "HasSuffix s t"
  then have "s = take (length s - length t) s @ t"
    by (metis HasSuffix_def append_take_drop_id)
  then show "\<exists>q. s = q @ t" ..
next
  assume "\<exists>q. s = q @ t"
  then show "HasSuffix s t" by (auto simp: HasSuffix_def)
qed

lemma HasSuffix_after_separator:
  assumes "c \<notin> set t"
  shows "HasSuffix (p @ c # ys) t \<longleftrightarrow> HasSuffix ys t"
proof
  assume "HasSuffix (p @ c # ys) t"
  then obtain q where q: "p @ c # ys = q @ t" by (auto simp: HasSuffix_iff)
  then show "HasSuffix ys t"
    using assms
    by (auto simp: HasSuffix_iff append_eq_append_conv2 Cons_eq_append_conv)
next
  assume "HasSuffix ys t"
  then obtain q where "ys = q @ t" by (auto simp: HasSuffix_iff)
  then have "p @ c # ys = (p @ c # q) @ t" by simp
  then show "HasSuffix (p @ c # ys) t" unfolding HasSuffix_iff by blast
qed

lemma HasSuffix_Cons_other:
  assumes "t \<noteq> []" and "c \<noteq> hd t"
  shows "HasSuffix (c # ys) t \<longleftrightarrow> HasSuffix ys t"
  using assms by (cases t) (auto simp: HasSuffix_iff Cons_eq_append_conv)

text \<open>
  Wrapping an error with \<open>resourceError\<close> keeps its classification: the message of the
  cause is the end of the message of the wrapped error, after a colon and a space.
\<close>

lemma doesNotExist_resourceError:
  "doesNotExist (Some (resourceError action namespace name m err)) = doesNotExist (Some err)"
proof -
  have c: "CHR '':'' \<notin> set ''not found''" by simp
  obtain p where p: "resourceError action namespace name m err = p @ CHR '':'' # (CHR '' '' # err)"
    by (cases "m = None \<or> IsEmpty (MappingGVK (the m))") (auto simp: resourceError_def)
  have "HasSuffix (p @ CHR '':'' # (CHR '' '' # err)) ''not found''
          = HasSuffix (CHR '' '' # err) ''not found''"
    using HasSuffix_after_separator[OF c] .
  also have "\<dots> = HasSuffix err ''not found''"
    by (rule HasSuffix_Cons_other) simp_all
  finally show ?thesis by (simp add: doesNotExist_def p)
qed

section \<open>Error messages of the cluster operations\<close>

text \<open>
  Claim C7. A failing cluster operation is wrapped into a message that names the action,
  the namespace, the name and the kind, each in its own place. \<open>get\<close> does so: for the
  service \<open>web\<close> of the namespace \<open>prod\<close> the message reads \<open>prod/web\<close>. \<open>create\<close> hands the
  name to \<open>resourceError\<close> where the namespace belongs and the namespace where the name
  belongs, and its message for the same service reads \<open>web/prod\<close>.
\<close>

theorem create_error_swaps_namespace_and_name:
  "fst (create quietClient (ServiceObj (sampleService [] [] [] [] ''web'')) serviceMapping
          (emptyState [Inl ''connection refused'']))
     = Inl (''could not create '' @ apostrophe @ ''web/prod'' @ apostrophe
            @ '' (Service): connection refused'')
   \<and> fst (get quietClient ''prod'' ''web'' True serviceMapping
            (emptyState [Inl ''connection refused'']))
     = Inl (''could not get '' @ apostrophe @ ''prod/web'' @ apostrophe
            @ '' (Service): connection refused'')"
  by (simp add: create_def get_def call_defs sample_defs resourceError_def IsEmpty_def
        request_defs)

section \<open>The update path\<close>

text \<open>\<open>update\<close> always calls \<open>get\<close> with the export flag set: this is the request it sends.\<close>

lemma get_export_unfold:
  "get cl ns name True m st =
     (case restDo cl ((setRequestObjectInfo ((newRequest GET)\<lparr>reqName := name\<rparr>) ns m)
                        \<lparr>params := [(''export'', ''true'')]\<rparr>) (world st) of
        (resp, w) \<Rightarrow>
          ((case resp of
              Inl err \<Rightarrow> Inl (resourceError ''get'' ns name (Some m) err)
            | Inr runtimeObj \<Rightarrow> AsKubeObject runtimeObj),
           \<lparr>world = w,
            trace = trace st @ [RestDo ((setRequestObjectInfo ((newRequest GET)\<lparr>reqName := name\<rparr>) ns m)
                        \<lparr>params := [(''export'', ''true'')]\<rparr>) resp]\<rparr>))"
  by (simp add: get_def callRestDo_def request_defs Let_def split: prod.splits sum.splits)

text \<open>
  Claim C5. When the fetch of the live object fails with an error \<open>e\<close>: if \<open>e\<close> is
  classified as not-found, \<open>update\<close> (called, as \<open>deploy\<close> calls it, with the create flag
  set) is the create of the object, and a create that succeeds makes \<open>update\<close> and \<open>deploy\<close>
  succeed; if \<open>e\<close> is not classified as not-found, \<open>update\<close> returns \<open>e\<close> and sends nothing
  more. The classification is defined on every error value and is false on nil. The error
  that \<open>get\<close> returns for a failed request is classified as the error of the request is.
\<close>

theorem update_not_found_becomes_create:
  assumes "get cl (Namespace (GetObjectMeta obj)) (Name (GetObjectMeta obj)) True m st = (Inl e, st1)"
  shows "\<not> doesNotExist None
    \<and> (doesNotExist (Some e) \<longrightarrow>
          update L cl obj True m st
            = (liftError (fst (create cl obj m st1)), obj, snd (create cl obj m st1)))
    \<and> (doesNotExist (Some e) \<longrightarrow>
          (\<forall>created st2. create cl obj m st1 = (Inr created, st2) \<longrightarrow>
             update L cl obj True m st = (Inr created, obj, st2)
             \<and> (mapping L obj = Inr m \<longrightarrow> deploy L cl (Some obj) True st = (Inr (), Some obj, st2))))
    \<and> (\<not> doesNotExist (Some e) \<longrightarrow>
          update L cl obj createFlag m st = (Inl (Err e), obj, st1))
    \<and> (\<forall>err w. restDo cl ((setRequestObjectInfo
                               ((newRequest GET)\<lparr>reqName := Name (GetObjectMeta obj)\<rparr>)
                               (Namespace (GetObjectMeta obj)) m)
                              \<lparr>params := [(''export'', ''true'')]\<rparr>) (world st) = (Inl err, w)
          \<longrightarrow> doesNotExist (Some e) = doesNotExist (Some err))"
proof -
  have last: "\<forall>err w. restDo cl ((setRequestObjectInfo
                               ((newRequest GET)\<lparr>reqName := Name (GetObjectMeta obj)\<rparr>)
                               (Namespace (GetObjectMeta obj)) m)
                              \<lparr>params := [(''export'', ''true'')]\<rparr>) (world st) = (Inl err, w)
          \<longrightarrow> doesNotExist (Some e) = doesNotExist (Some err)"
    using assms by (auto simp: get_export_unfold doesNotExist_resourceError)
  show ?thesis
    using assms last
    by (auto simp: update_def deploy_def doesNotExist_def errorOf_def liftError_def Let_def
             split: prod.splits sum.splits)
qed

theorem update_not_found_becomes_create_witness:
  "get quietClient ''prod'' ''web'' True serviceMapping
       (emptyState [Inl ''services web not found'',
                    Inr (IsKubeObject (ServiceObj (sampleService ''1'' ''10.0.0.1'' [] [] ''web'')))])
     = (Inl (''could not get '' @ apostrophe @ ''prod/web'' @ apostrophe
             @ '' (Service): services web not found''),
        \<lparr>world = [Inr (IsKubeObject (ServiceObj (sampleService ''1'' ''10.0.0.1'' [] [] ''web'')))],
         trace = [RestDo \<lparr>verb = GET, reqName = ''web'', reqNamespace = Some ''prod'',
                          reqResource = ''services'', params = [(''export'', ''true'')],
                          body = NoBody\<rparr> (Inl ''services web not found'')]\<rparr>)
   \<and> doesNotExist (Some (''could not get '' @ apostrophe @ ''prod/web'' @ apostrophe
                         @ '' (Service): services web not found''))
   \<and> fst (update sampleLib quietClient (ServiceObj (sampleService [] [] [] [] ''web'')) True
            serviceMapping
            (emptyState [Inl ''services web not found'',
                         Inr (IsKubeObject (ServiceObj (sampleService ''1'' ''10.0.0.1'' [] [] ''web'')))]))
       = Inr (ServiceObj (sampleService ''1'' ''10.0.0.1'' [] [] ''web''))"
  using update_not_found_becomes_create
          [of quietClient "ServiceObj (sampleService [] [] [] [] ''web'')" serviceMapping
              "emptyState [Inl ''services web not found'',
                    Inr (IsKubeObject (ServiceObj (sampleService ''1'' ''10.0.0.1'' [] [] ''web'')))]"
              "''could not get '' @ apostrophe @ ''prod/web'' @ apostrophe
                 @ '' (Service): services web not found''"
              "\<lparr>world = [Inr (IsKubeObject (ServiceObj (sampleService ''1'' ''10.0.0.1'' [] [] ''web'')))],
                trace = [RestDo \<lparr>verb = GET, reqName = ''web'', reqNamespace = Some ''prod'',
                          reqResource = ''services'', params = [(''export'', ''true'')],
                          body = NoBody\<rparr> (Inl ''services web not found'')]\<rparr>"
              sampleLib True]
  by (simp add: get_def create_def call_defs sample_defs resourceError_def IsEmpty_def
        request_defs doesNotExist_def HasSuffix_def apostrophe_def liftError_def AsKubeObject_def)

lemma create_trace:
  "\<exists>req resp. verb req = POST \<and> body req = ObjectBody obj
      \<and> trace (snd (create cl obj m st)) = trace st @ [RestDo req resp]"
  by (auto simp: create_def callRestDo_def request_defs Let_def split: prod.splits sum.splits)

lemma get_trace:
  "\<exists>resp. trace (snd (get cl ns name True m st))
      = trace st @ [RestDo ((setRequestObjectInfo ((newRequest GET)\<lparr>reqName := name\<rparr>) ns m)
                        \<lparr>params := [(''export'', ''true'')]\<rparr>) resp]
     \<and> (\<forall>deployed. resp = Inr (IsKubeObject deployed)
            \<longrightarrow> fst (get cl ns name True m st) = Inr deployed)"
  by (auto simp: get_export_unfold AsKubeObject_def split: prod.splits sum.splits)

lemma update_after_get:
  assumes "get cl (Namespace (GetObjectMeta obj)) (Name (GetObjectMeta obj)) True m st = (r, st1)"
  shows "\<exists>rest. trace (snd (snd (update L cl obj createFlag m st))) = trace st1 @ rest
           \<and> (\<forall>req resp. RestDo req resp \<in> set rest \<longrightarrow> verb req \<noteq> GET)"
proof (cases "doesNotExist (errorOf r) \<and> createFlag")
  case True
  then have "update L cl obj createFlag m st
               = (liftError (fst (create cl obj m st1)), obj, snd (create cl obj m st1))"
    using assms by (simp add: update_def Let_def split: prod.splits)
  then show ?thesis using create_trace[of obj cl m st1] by auto
next
  case False
  show ?thesis
  proof (cases r)
    case (Inl err)
    then show ?thesis using assms False by (auto simp: update_def Let_def)
  next
    case (Inr deployed)
    then show ?thesis using assms False
      by (auto simp: update_def Let_def callRestDo_def request_defs
               split: prod.splits sum.splits)
  qed
qed

lemma update_result_object:
  assumes "get cl (Namespace (GetObjectMeta obj)) (Name (GetObjectMeta obj)) True m st = (Inr deployed, st1)"
    and "copyImmutables deployed (SetResourceVersion obj (ResourceVersion (GetObjectMeta deployed))) = Inr obj2"
  shows "fst (snd (update L cl obj createFlag m st)) = obj2"
  using assms
  by (simp add: update_def Let_def errorOf_def doesNotExist_def split: prod.splits sum.splits)

text \<open>The two ways \<open>update\<close> ends once the live object is fetched.\<close>

lemma meta_SetResourceVersion [simp]:
  "Name (GetObjectMeta (SetResourceVersion obj v)) = Name (GetObjectMeta obj)"
  "Namespace (GetObjectMeta (SetResourceVersion obj v)) = Namespace (GetObjectMeta obj)"
  by (cases obj; simp)+

lemma meta_copyImmutables:
  assumes "copyImmutables src dst = Inr dst'"
  shows "GetObjectMeta dst' = GetObjectMeta dst"
  using assms by (auto simp: copyImmutables_def split: KubeObject.splits)

lemma update_equal_case:
  assumes "get cl (Namespace (GetObjectMeta obj)) (Name (GetObjectMeta obj)) True m st = (Inr deployed, st1)"
    and "copyImmutables deployed (SetResourceVersion obj (ResourceVersion (GetObjectMeta deployed))) = Inr obj2"
    and "DeepEqual obj2 deployed"
  shows "update L cl obj createFlag m st = (Inr deployed, obj2, st1)"
  using assms by (simp add: update_def Let_def errorOf_def doesNotExist_def)

lemma update_patch_case:
  assumes "get cl (Namespace (GetObjectMeta obj)) (Name (GetObjectMeta obj)) True m st = (Inr deployed, st1)"
    and "copyImmutables deployed (SetResourceVersion obj (ResourceVersion (GetObjectMeta deployed))) = Inr obj2"
    and "\<not> DeepEqual obj2 deployed"
    and "diff L deployed obj2 = Inr patch"
  shows "\<exists>resp w.
           restDo cl (setRequestObjectInfo
                        ((newRequest (PATCH StrategicMergePatchType))
                           \<lparr>reqName := Name (GetObjectMeta obj), body := BytesBody patch\<rparr>)
                        (Namespace (GetObjectMeta obj)) m) (world st1) = (resp, w)
         \<and> update L cl obj createFlag m st
             = ((case resp of
                   Inl err \<Rightarrow> Inl (Err (resourceError ''update'' (Namespace (GetObjectMeta obj))
                                         (Name (GetObjectMeta obj)) (Some m) err))
                 | Inr runtimeObj \<Rightarrow> liftError (AsKubeObject runtimeObj)),
                obj2,
                \<lparr>world = w,
                 trace = trace st1
                   @ [RestDo (setRequestObjectInfo
                        ((newRequest (PATCH StrategicMergePatchType))
                           \<lparr>reqName := Name (GetObjectMeta obj), body := BytesBody patch\<rparr>)
                        (Namespace (GetObjectMeta obj)) m) resp]\<rparr>)"
  using assms
  by (auto simp: update_def Let_def errorOf_def doesNotExist_def callRestDo_def
           split: prod.splits sum.splits)

lemma get_since:
  assumes "get cl ns name True m st = (r, st1)"
  shows "\<exists>resp. since st st1
      = [RestDo ((setRequestObjectInfo ((newRequest GET)\<lparr>reqName := name\<rparr>) ns m)
                        \<lparr>params := [(''export'', ''true'')]\<rparr>) resp]"
  using get_trace[of cl ns name m st] assms by (auto simp: since_def)

lemma since_trans:
  assumes "trace st1 = trace st @ a" and "trace st2 = trace st1 @ b"
  shows "since st st2 = a @ b" and "since st1 st2 = b" and "since st st1 = a"
  using assms by (simp_all add: since_def)

lemma update_diff_error_case:
  assumes "get cl (Namespace (GetObjectMeta obj)) (Name (GetObjectMeta obj)) True m st = (Inr deployed, st1)"
    and "copyImmutables deployed (SetResourceVersion obj (ResourceVersion (GetObjectMeta deployed))) = Inr obj2"
    and "\<not> DeepEqual obj2 deployed"
    and "diff L deployed obj2 = Inl err"
  shows "update L cl obj createFlag m st
           = (Inl (Err (''could not create diff: '' @ err)), obj2, st1)"
  using assms by (simp add: update_def Let_def errorOf_def doesNotExist_def)

text \<open>
  Claim C4, as the code has it. \<open>update\<close> fetches the live object with the export
  parameter set: the first request it sends is the GET for the object's name, namespace and
  resource with \<open>export=true\<close>, and it sends no other GET. The object this request returns
  is the one whose resource version and immutable fields are written into the desired
  object, the one the desired object is then compared with, and the one against which the
  patch is computed: when the two are equal nothing more is sent and the fetched object is
  returned; when they differ, \<open>diff\<close> is applied to the fetched object and the desired
  object, and either it fails and nothing more is sent, or its patch is the body of the one
  request that follows.
\<close>

theorem update_fetches_with_export_enabled:
  "\<exists>resp rest.
      trace (snd (snd (update L cl obj createFlag m st)))
        = trace st
          @ RestDo ((setRequestObjectInfo
                      ((newRequest GET)\<lparr>reqName := Name (GetObjectMeta obj)\<rparr>)
                      (Namespace (GetObjectMeta obj)) m)
                     \<lparr>params := [(''export'', ''true'')]\<rparr>) resp
          # rest
    \<and> (\<forall>req r. RestDo req r \<in> set rest \<longrightarrow> verb req \<noteq> GET)
    \<and> (\<forall>deployed obj2.
          resp = Inr (IsKubeObject deployed) \<longrightarrow>
          copyImmutables deployed
            (SetResourceVersion obj (ResourceVersion (GetObjectMeta deployed))) = Inr obj2 \<longrightarrow>
          fst (snd (update L cl obj createFlag m st)) = obj2
          \<and> (if DeepEqual obj2 deployed
              then rest = [] \<and> fst (update L cl obj createFlag m st) = Inr deployed
              else (case diff L deployed obj2 of
                      Inl err \<Rightarrow>
                        rest = []
                        \<and> fst (update L cl obj createFlag m st)
                            = Inl (Err (''could not create diff: '' @ err))
                    | Inr patch \<Rightarrow>
                        (\<exists>resp2. rest =
                           [RestDo (setRequestObjectInfo
                                      ((newRequest (PATCH StrategicMergePatchType))
                                         \<lparr>reqName := Name (GetObjectMeta obj),
                                          body := BytesBody patch\<rparr>)
                                      (Namespace (GetObjectMeta obj)) m) resp2]))))"
proof -
  let ?u = "update L cl obj createFlag m st"
  obtain r st1 where g: "get cl (Namespace (GetObjectMeta obj)) (Name (GetObjectMeta obj)) True m st = (r, st1)"
    by (cases "get cl (Namespace (GetObjectMeta obj)) (Name (GetObjectMeta obj)) True m st")
  from get_trace[of cl "Namespace (GetObjectMeta obj)" "Name (GetObjectMeta obj)" m st] g
  obtain resp where resp:
    "trace st1 = trace st @ [RestDo ((setRequestObjectInfo
                      ((newRequest GET)\<lparr>reqName := Name (GetObjectMeta obj)\<rparr>)
                      (Namespace (GetObjectMeta obj)) m)
                     \<lparr>params := [(''export'', ''true'')]\<rparr>) resp]"
    "\<forall>deployed. resp = Inr (IsKubeObject deployed) \<longrightarrow> r = Inr deployed"
    by auto
  from update_after_get[OF g, of L createFlag]
  obtain rest where rest:
    "trace (snd (snd ?u)) = trace st1 @ rest"
    "\<forall>req resp. RestDo req resp \<in> set rest \<longrightarrow> verb req \<noteq> GET"
    by auto
  have obj: "fst (snd ?u) = obj2
          \<and> (if DeepEqual obj2 deployed
              then rest = [] \<and> fst ?u = Inr deployed
              else (case diff L deployed obj2 of
                      Inl err \<Rightarrow>
                        rest = [] \<and> fst ?u = Inl (Err (''could not create diff: '' @ err))
                    | Inr patch \<Rightarrow>
                        (\<exists>resp2. rest =
                           [RestDo (setRequestObjectInfo
                                      ((newRequest (PATCH StrategicMergePatchType))
                                         \<lparr>reqName := Name (GetObjectMeta obj),
                                          body := BytesBody patch\<rparr>)
                                      (Namespace (GetObjectMeta obj)) m) resp2])))"
    if fetched: "resp = Inr (IsKubeObject deployed)"
      and c: "copyImmutables deployed
            (SetResourceVersion obj (ResourceVersion (GetObjectMeta deployed))) = Inr obj2"
    for deployed obj2
  proof -
    have g': "get cl (Namespace (GetObjectMeta obj)) (Name (GetObjectMeta obj)) True m st
                = (Inr deployed, st1)"
      using g resp(2) fetched by simp
    have o: "fst (snd ?u) = obj2"
      using update_result_object[OF g' c] .
    show ?thesis
    proof (cases "DeepEqual obj2 deployed")
      case True
      from update_equal_case[OF g' c True, of L createFlag]
      have "rest = []" "fst ?u = Inr deployed" using rest(1) by simp_all
      then show ?thesis using o True by simp
    next
      case False
      show ?thesis
      proof (cases "diff L deployed obj2")
        case (Inl err)
        from update_diff_error_case[OF g' c False Inl, of createFlag]
        have "rest = []" "fst ?u = Inl (Err (''could not create diff: '' @ err))"
          using rest(1) by simp_all
        then show ?thesis using o False Inl by simp
      next
        case (Inr patch)
        from update_patch_case[OF g' c False Inr, of createFlag] rest(1)
        have "\<exists>resp2. rest =
                [RestDo (setRequestObjectInfo
                           ((newRequest (PATCH StrategicMergePatchType))
                              \<lparr>reqName := Name (GetObjectMeta obj), body := BytesBody patch\<rparr>)
                           (Namespace (GetObjectMeta obj)) m) resp2]"
          by auto
        then show ?thesis using o False Inr by simp
      qed
    qed
  qed
  show ?thesis
    using resp(1) rest obj by (intro exI[of _ resp] exI[of _ rest]) simp
qed

theorem update_fetches_with_export_enabled_witness:
  "(\<exists>resp rest.
      trace (snd (snd (update diffLib quietClient
                         (ServiceObj (sampleService [] [] [] ''selector: web'' ''web'')) True
                         serviceMapping
                         (emptyState
                            [Inr (IsKubeObject
                               (ServiceObj (sampleService ''7'' ''10.0.0.1'' [] ''selector: old'' ''web''))),
                             Inr (IsKubeObject
                               (ServiceObj (sampleService ''8'' ''10.0.0.1'' [] ''selector: web'' ''web'')))]))))
        = RestDo \<lparr>verb = GET, reqName = ''web'', reqNamespace = Some ''prod'',
                  reqResource = ''services'', params = [(''export'', ''true'')],
                  body = NoBody\<rparr> resp # rest)
   \<and> diff diffLib
        (ServiceObj (sampleService ''7'' ''10.0.0.1'' [] ''selector: old'' ''web''))
        (ServiceObj (sampleService ''7'' ''10.0.0.1'' [] ''selector: web'' ''web''))
       = Inr ''Service/web { selector: old} -> Service/web { selector: web}''
   \<and> update diffLib quietClient
        (ServiceObj (sampleService [] [] [] ''selector: web'' ''web'')) True serviceMapping
        (emptyState
           [Inr (IsKubeObject
              (ServiceObj (sampleService ''7'' ''10.0.0.1'' [] ''selector: old'' ''web''))),
            Inr (IsKubeObject
              (ServiceObj (sampleService ''8'' ''10.0.0.1'' [] ''selector: web'' ''web'')))])
       = (Inr (ServiceObj (sampleService ''8'' ''10.0.0.1'' [] ''selector: web'' ''web'')),
          ServiceObj (sampleService ''7'' ''10.0.0.1'' [] ''selector: web'' ''web''),
          \<lparr>world = [],
           trace =
             [RestDo \<lparr>verb = GET, reqName = ''web'', reqNamespace = Some ''prod'',
                      reqResource = ''services'', params = [(''export'', ''true'')],
                      body = NoBody\<rparr>
                (Inr (IsKubeObject
                   (ServiceObj (sampleService ''7'' ''10.0.0.1'' [] ''selector: old'' ''web'')))),
              RestDo \<lparr>verb = PATCH StrategicMergePatchType, reqName = ''web'',
                      reqNamespace = Some ''prod'', reqResource = ''services'', params = [],
                      body = BytesBody
                               ''Service/web { selector: old} -> Service/web { selector: web}''\<rparr>
                (Inr (IsKubeObject
                   (ServiceObj (sampleService ''8'' ''10.0.0.1'' [] ''selector: web'' ''web''))))]\<rparr>)"
proof -
  let ?obj = "ServiceObj (sampleService [] [] [] ''selector: web'' ''web'')"
  let ?st = "emptyState
               [Inr (IsKubeObject
                  (ServiceObj (sampleService ''7'' ''10.0.0.1'' [] ''selector: old'' ''web''))),
                Inr (IsKubeObject
                  (ServiceObj (sampleService ''8'' ''10.0.0.1'' [] ''selector: web'' ''web'')))]"
  have shape: "\<exists>resp rest.
      trace (snd (snd (update diffLib quietClient ?obj True serviceMapping ?st)))
        = RestDo \<lparr>verb = GET, reqName = ''web'', reqNamespace = Some ''prod'',
                  reqResource = ''services'', params = [(''export'', ''true'')],
                  body = NoBody\<rparr> resp # rest"
    using update_fetches_with_export_enabled[of diffLib quietClient ?obj True serviceMapping ?st]
    by (auto simp: sample_defs request_defs)
  have d: "diff diffLib
        (ServiceObj (sampleService ''7'' ''10.0.0.1'' [] ''selector: old'' ''web''))
        (ServiceObj (sampleService ''7'' ''10.0.0.1'' [] ''selector: web'' ''web''))
       = Inr ''Service/web { selector: old} -> Service/web { selector: web}''"
    by (simp add: diff_def sample_defs)
  have ev: "update diffLib quietClient ?obj True serviceMapping ?st
       = (Inr (ServiceObj (sampleService ''8'' ''10.0.0.1'' [] ''selector: web'' ''web'')),
          ServiceObj (sampleService ''7'' ''10.0.0.1'' [] ''selector: web'' ''web''),
          \<lparr>world = [],
           trace =
             [RestDo \<lparr>verb = GET, reqName = ''web'', reqNamespace = Some ''prod'',
                      reqResource = ''services'', params = [(''export'', ''true'')],
                      body = NoBody\<rparr>
                (Inr (IsKubeObject
                   (ServiceObj (sampleService ''7'' ''10.0.0.1'' [] ''selector: old'' ''web'')))),
              RestDo \<lparr>verb = PATCH StrategicMergePatchType, reqName = ''web'',
                      reqNamespace = Some ''prod'', reqResource = ''services'', params = [],
                      body = BytesBody
                               ''Service/web { selector: old} -> Service/web { selector: web}''\<rparr>
                (Inr (IsKubeObject
                   (ServiceObj (sampleService ''8'' ''10.0.0.1'' [] ''selector: web'' ''web''))))]\<rparr>)"
    by (simp add: update_def get_def create_def call_defs sample_defs resourceError_def
          request_defs doesNotExist_def errorOf_def liftError_def AsKubeObject_def
          copyImmutables_def DeepEqual_def diff_def Let_def)
  show ?thesis using shape d ev by (intro conjI)
qed

text \<open>
  A run of \<open>update\<close> against a cluster that holds the service in an older state: the
  fetch is the GET with \<open>export=true\<close>, and the patch follows.
\<close>

theorem update_fetch_carries_export_parameter:
  "update sampleLib quietClient
      (ServiceObj (sampleService [] [] [] ''selector: web'' ''web'')) True serviceMapping
      (emptyState [Inr (IsKubeObject
                     (ServiceObj (sampleService ''7'' ''10.0.0.1'' [] ''selector: old'' ''web''))),
                   Inr (IsKubeObject
                     (ServiceObj (sampleService ''8'' ''10.0.0.1'' [] ''selector: web'' ''web'')))])
    = (Inr (ServiceObj (sampleService ''8'' ''10.0.0.1'' [] ''selector: web'' ''web'')),
       ServiceObj (sampleService ''7'' ''10.0.0.1'' [] ''selector: web'' ''web''),
       \<lparr>world = [],
        trace =
          [RestDo \<lparr>verb = GET, reqName = ''web'', reqNamespace = Some ''prod'',
                   reqResource = ''services'', params = [(''export'', ''true'')],
                   body = NoBody\<rparr>
             (Inr (IsKubeObject
                     (ServiceObj (sampleService ''7'' ''10.0.0.1'' [] ''selector: old'' ''web'')))),
           RestDo \<lparr>verb = PATCH StrategicMergePatchType, reqName = ''web'',
                   reqNamespace = Some ''prod'', reqResource = ''services'', params = [],
                   body = BytesBody ''Service/web''\<rparr>
             (Inr (IsKubeObject
                     (ServiceObj (sampleService ''8'' ''10.0.0.1'' [] ''selector: web'' ''web''))))]\<rparr>)"
  by (simp add: update_def get_def create_def call_defs sample_defs resourceError_def
        request_defs doesNotExist_def errorOf_def liftError_def AsKubeObject_def
        copyImmutables_def DeepEqual_def diff_def Let_def)

lemma copyImmutables_self: "copyImmutables obj obj = Inr obj"
  by (cases obj) (simp_all add: copyImmutables_def)

lemma storedAsSent_iff:
  assumes "copyImmutables live1 (SetResourceVersion obj v1) = Inr obj1"
    and "copyImmutables live2 (SetResourceVersion obj1 (ResourceVersion (GetObjectMeta live2)))
           = Inr obj2"
  shows "DeepEqual obj2 live2 \<longleftrightarrow> storedAsSent live2 obj"
proof (cases obj)
  case (ServiceObj d)
  then obtain d1 where o1: "obj1 = ServiceObj d1" "Meta d1 = (Meta d)\<lparr>ResourceVersion := v1\<rparr>"
    "(Spec d1)\<lparr>ClusterIP := x\<rparr> = (Spec d)\<lparr>ClusterIP := x\<rparr>" "APIVersion d1 = APIVersion d"
    "Status d1 = Status d" for x
    using assms(1) by (cases live1) (auto simp: copyImmutables_def)
  show ?thesis
  proof (cases live2)
    case l: (ServiceObj l)
    have "obj2 = ServiceObj (d1\<lparr>Meta := (Meta d1)\<lparr>ResourceVersion := ResourceVersion (Meta l)\<rparr>,
                                Spec := (Spec d1)\<lparr>ClusterIP := ClusterIP (Spec l)\<rparr>\<rparr>)"
      using assms(2) o1(1) l by (simp add: copyImmutables_def)
    moreover have "d1\<lparr>Meta := (Meta d1)\<lparr>ResourceVersion := ResourceVersion (Meta l)\<rparr>,
                      Spec := (Spec d1)\<lparr>ClusterIP := ClusterIP (Spec l)\<rparr>\<rparr>
                 = d\<lparr>Meta := (Meta d)\<lparr>ResourceVersion := ResourceVersion (Meta l)\<rparr>,
                      Spec := (Spec d)\<lparr>ClusterIP := ClusterIP (Spec l)\<rparr>\<rparr>"
      using o1(2,4,5) o1(3)[of "ClusterIP (Spec l)"] by simp
    ultimately show ?thesis
      using ServiceObj l by (auto simp: DeepEqual_def storedAsSent_def)
  next
    case (NamespaceObj n)
    then show ?thesis using assms(2) o1(1) ServiceObj
      by (auto simp: copyImmutables_def DeepEqual_def storedAsSent_def)
  next
    case (ReplicationControllerObj r)
    then show ?thesis using assms(2) o1(1) ServiceObj
      by (auto simp: copyImmutables_def DeepEqual_def storedAsSent_def)
  next
    case (OtherObj k x)
    then show ?thesis using assms(2) o1(1) ServiceObj
      by (auto simp: copyImmutables_def DeepEqual_def storedAsSent_def)
  qed
next
  case (NamespaceObj n)
  then have o1: "obj1 = SetResourceVersion obj v1"
    using assms(1) by (cases live1) (auto simp: copyImmutables_def)
  then have "obj2 = SetResourceVersion obj (ResourceVersion (GetObjectMeta live2))"
    using assms(2) NamespaceObj by (cases live2) (auto simp: copyImmutables_def)
  then show ?thesis using NamespaceObj
    by (cases live2) (auto simp: DeepEqual_def storedAsSent_def)
next
  case (ReplicationControllerObj r)
  then have o1: "obj1 = SetResourceVersion obj v1"
    using assms(1) by (cases live1) (auto simp: copyImmutables_def)
  then have "obj2 = SetResourceVersion obj (ResourceVersion (GetObjectMeta live2))"
    using assms(2) ReplicationControllerObj by (cases live2) (auto simp: copyImmutables_def)
  then show ?thesis using ReplicationControllerObj
    by (cases live2) (auto simp: DeepEqual_def storedAsSent_def)
next
  case (OtherObj k x)
  then have o1: "obj1 = SetResourceVersion obj v1"
    using assms(1) by (cases live1) (auto simp: copyImmutables_def)
  then have "obj2 = SetResourceVersion obj (ResourceVersion (GetObjectMeta live2))"
    using assms(2) OtherObj by (cases live2) (auto simp: copyImmutables_def)
  then show ?thesis using OtherObj
    by (cases live2) (auto simp: DeepEqual_def storedAsSent_def)
qed

lemma storedAsSent_iff_first:
  assumes "copyImmutables live (SetResourceVersion obj (ResourceVersion (GetObjectMeta live)))
             = Inr obj1"
  shows "DeepEqual obj1 live \<longleftrightarrow> storedAsSent live obj"
proof (cases live)
  case l: (ServiceObj l)
  then obtain d where d: "obj = ServiceObj d"
    using assms by (cases obj) (auto simp: copyImmutables_def)
  then show ?thesis using assms l
    by (auto simp: copyImmutables_def DeepEqual_def storedAsSent_def)
next
  case (NamespaceObj n)
  then show ?thesis using assms
    by (cases obj) (auto simp: copyImmutables_def DeepEqual_def storedAsSent_def)
next
  case (ReplicationControllerObj r)
  then show ?thesis using assms
    by (cases obj) (auto simp: copyImmutables_def DeepEqual_def storedAsSent_def)
next
  case (OtherObj k x)
  then show ?thesis using assms
    by (cases obj) (auto simp: copyImmutables_def DeepEqual_def storedAsSent_def)
qed

lemma update_first_call:
  assumes "get cl (Namespace (GetObjectMeta obj)) (Name (GetObjectMeta obj)) True m st = (Inr live, st1)"
    and "copyImmutables live (SetResourceVersion obj (ResourceVersion (GetObjectMeta live))) = Inr obj1"
    and "update L cl obj createFlag m st = (r, objA, stA)"
  shows "objA = obj1"
    and "patchRequests (since st stA)
           = (if DeepEqual obj1 live then 0
              else case diff L live obj1 of Inl err \<Rightarrow> 0 | Inr patch \<Rightarrow> 1)"
proof -
  show "objA = obj1"
    using update_result_object[OF assms(1,2), of L createFlag] assms(3) by simp
  from get_since[OF assms(1)] obtain resp1 where
    G: "since st st1 = [RestDo ((setRequestObjectInfo
                            ((newRequest GET)\<lparr>reqName := Name (GetObjectMeta obj)\<rparr>)
                            (Namespace (GetObjectMeta obj)) m)
                           \<lparr>params := [(''export'', ''true'')]\<rparr>) resp1]" by blast
  have g0: "patchRequests (since st st1) = 0"
    by (simp add: G patchRequests_def request_defs)
  have t1: "trace st1 = trace st @ since st st1"
    using get_trace[of cl "Namespace (GetObjectMeta obj)" "Name (GetObjectMeta obj)" m st] assms(1)
    by (auto simp: since_def)
  show "patchRequests (since st stA)
           = (if DeepEqual obj1 live then 0
              else case diff L live obj1 of Inl err \<Rightarrow> 0 | Inr patch \<Rightarrow> 1)"
  proof (cases "DeepEqual obj1 live")
    case True
    from update_equal_case[OF assms(1,2) True, of L createFlag] assms(3)
    have "stA = st1" by simp
    then show ?thesis using g0 True by simp
  next
    case False
    show ?thesis
    proof (cases "diff L live obj1")
      case (Inl err)
      from update_diff_error_case[OF assms(1,2) False Inl, of createFlag] assms(3)
      have "stA = st1" by simp
      then show ?thesis using g0 False Inl by simp
    next
      case (Inr patch)
      from update_patch_case[OF assms(1,2) False Inr, of createFlag] assms(3)
      obtain resp where
        A: "trace stA = trace st1 @ [RestDo (setRequestObjectInfo
                        ((newRequest (PATCH StrategicMergePatchType))
                           \<lparr>reqName := Name (GetObjectMeta obj), body := BytesBody patch\<rparr>)
                        (Namespace (GetObjectMeta obj)) m) resp]"
        by auto
      have "since st stA = since st st1 @ [RestDo (setRequestObjectInfo
                        ((newRequest (PATCH StrategicMergePatchType))
                           \<lparr>reqName := Name (GetObjectMeta obj), body := BytesBody patch\<rparr>)
                        (Namespace (GetObjectMeta obj)) m) resp]"
        using since_trans(1)[OF t1 A] .
      then have "patchRequests (since st stA) = 1"
        by (simp add: G patchRequests_def request_defs)
      then show ?thesis using False Inr by simp
    qed
  qed
qed

text \<open>
  Claim C1, as the code has it. When the desired object, once the live resource version
  and the immutable fields are copied onto it, is deep-equal to the live object, \<open>update\<close>
  returns the live object and sends nothing but the fetch: no patch. Applying the same
  desired object twice, the second time as the first call has left it: a call sends no
  patch exactly when the object its fetch returns is the desired object as it was sent,
  apart from the resource version and the immutable fields, which the server owns;
  otherwise it sends one patch when \<open>diff\<close> gives one, and none when \<open>diff\<close> fails. So the
  second call sends no patch and returns the live object when the server has stored the
  desired state as it was sent. Nothing makes the server do so: where it keeps or fills in
  any other field, the second call patches again.
\<close>

theorem update_twice_patches_once:
  "(\<forall>deployed st1 obj2.
       get cl (Namespace (GetObjectMeta obj)) (Name (GetObjectMeta obj)) True m st
         = (Inr deployed, st1) \<longrightarrow>
       copyImmutables deployed
         (SetResourceVersion obj (ResourceVersion (GetObjectMeta deployed))) = Inr obj2 \<longrightarrow>
       DeepEqual obj2 deployed \<longrightarrow>
         update L cl obj createFlag m st = (Inr deployed, obj2, st1)
         \<and> (\<exists>resp. since st st1
               = [RestDo ((setRequestObjectInfo
                            ((newRequest GET)\<lparr>reqName := Name (GetObjectMeta obj)\<rparr>)
                            (Namespace (GetObjectMeta obj)) m)
                           \<lparr>params := [(''export'', ''true'')]\<rparr>) resp])
         \<and> patchRequests (since st st1) = 0)
   \<and> (\<forall>live1 st1 obj1 r1 objA stA live2 st2 obj2 r2 objB stB.
       get cl (Namespace (GetObjectMeta obj)) (Name (GetObjectMeta obj)) True m st
         = (Inr live1, st1) \<longrightarrow>
       copyImmutables live1
         (SetResourceVersion obj (ResourceVersion (GetObjectMeta live1))) = Inr obj1 \<longrightarrow>
       update L cl obj createFlag m st = (r1, objA, stA) \<longrightarrow>
       get cl (Namespace (GetObjectMeta obj)) (Name (GetObjectMeta obj)) True m stA
         = (Inr live2, st2) \<longrightarrow>
       copyImmutables live2
         (SetResourceVersion objA (ResourceVersion (GetObjectMeta live2))) = Inr obj2 \<longrightarrow>
       update L cl objA createFlag m stA = (r2, objB, stB) \<longrightarrow>
         objA = obj1 \<and> objB = obj2
         \<and> patchRequests (since st stA)
             = (if storedAsSent live1 obj then 0
                else case diff L live1 obj1 of Inl err \<Rightarrow> 0 | Inr patch \<Rightarrow> 1)
         \<and> patchRequests (since stA stB)
             = (if storedAsSent live2 obj then 0
                else case diff L live2 obj2 of Inl err \<Rightarrow> 0 | Inr patch \<Rightarrow> 1)
         \<and> (storedAsSent live2 obj \<longrightarrow> r2 = Inr live2 \<and> objB = live2 \<and> stB = st2))"
proof (intro conjI allI impI)
  fix deployed st1 obj2
  assume g: "get cl (Namespace (GetObjectMeta obj)) (Name (GetObjectMeta obj)) True m st
         = (Inr deployed, st1)"
    and c: "copyImmutables deployed
         (SetResourceVersion obj (ResourceVersion (GetObjectMeta deployed))) = Inr obj2"
    and e: "DeepEqual obj2 deployed"
  show "update L cl obj createFlag m st = (Inr deployed, obj2, st1)"
    using update_equal_case[OF g c e] .
  from get_since[OF g]
  show ex: "\<exists>resp. since st st1
               = [RestDo ((setRequestObjectInfo
                            ((newRequest GET)\<lparr>reqName := Name (GetObjectMeta obj)\<rparr>)
                            (Namespace (GetObjectMeta obj)) m)
                           \<lparr>params := [(''export'', ''true'')]\<rparr>) resp]" .
  then show "patchRequests (since st st1) = 0"
    by (auto simp: patchRequests_def request_defs)
next
  fix live1 st1 obj1 r1 objA stA live2 st2 obj2 r2 objB stB
  assume g1: "get cl (Namespace (GetObjectMeta obj)) (Name (GetObjectMeta obj)) True m st
         = (Inr live1, st1)"
    and c1: "copyImmutables live1
         (SetResourceVersion obj (ResourceVersion (GetObjectMeta live1))) = Inr obj1"
    and u1: "update L cl obj createFlag m st = (r1, objA, stA)"
    and g2: "get cl (Namespace (GetObjectMeta obj)) (Name (GetObjectMeta obj)) True m stA
         = (Inr live2, st2)"
    and c2: "copyImmutables live2
         (SetResourceVersion objA (ResourceVersion (GetObjectMeta live2))) = Inr obj2"
    and u2: "update L cl objA createFlag m stA = (r2, objB, stB)"
  show A: "objA = obj1" using update_first_call(1)[OF g1 c1 u1] .
  have e1: "DeepEqual obj1 live1 \<longleftrightarrow> storedAsSent live1 obj"
    using storedAsSent_iff_first[OF c1] .
  show "patchRequests (since st stA)
             = (if storedAsSent live1 obj then 0
                else case diff L live1 obj1 of Inl err \<Rightarrow> 0 | Inr patch \<Rightarrow> 1)"
    using update_first_call(2)[OF g1 c1 u1] e1 by simp
  have metaA: "GetObjectMeta objA = (GetObjectMeta obj)\<lparr>ResourceVersion := ResourceVersion (GetObjectMeta live1)\<rparr>"
    using meta_copyImmutables[OF c1] A by (cases obj) simp_all
  have g2': "get cl (Namespace (GetObjectMeta objA)) (Name (GetObjectMeta objA)) True m stA
         = (Inr live2, st2)"
    using g2 metaA by simp
  have e2: "DeepEqual obj2 live2 \<longleftrightarrow> storedAsSent live2 obj"
    using storedAsSent_iff[OF c1 c2[unfolded A]] .
  show B: "objB = obj2" using update_first_call(1)[OF g2' c2 u2] .
  show "patchRequests (since stA stB)
             = (if storedAsSent live2 obj then 0
                else case diff L live2 obj2 of Inl err \<Rightarrow> 0 | Inr patch \<Rightarrow> 1)"
    using update_first_call(2)[OF g2' c2 u2] e2 by simp
  assume nd: "storedAsSent live2 obj"
  then have eq: "DeepEqual obj2 live2" using e2 by simp
  from update_equal_case[OF g2' c2 eq, of L createFlag] u2
  have R: "r2 = Inr live2" "objB = obj2" "stB = st2" by auto
  show "r2 = Inr live2" by (rule R(1))
  show "objB = live2" using R(2) eq by (simp add: DeepEqual_def)
  show "stB = st2" by (rule R(3))
qed

lemmas eval_defs = update_def get_def create_def call_defs sample_defs resourceError_def
        request_defs doesNotExist_def errorOf_def liftError_def AsKubeObject_def
        copyImmutables_def DeepEqual_def diff_def Let_def since_def patchRequests_def
        StrategicMergePatchType_def

theorem update_twice_patches_once_witness:
  "patchRequests
     (since (emptyState
               [Inr (IsKubeObject (ServiceObj (sampleService ''7'' ''10.0.0.1'' [] ''selector: old'' ''web''))),
                Inr (IsKubeObject (ServiceObj (sampleService ''8'' ''10.0.0.1'' [] ''selector: web'' ''web''))),
                Inr (IsKubeObject (ServiceObj (sampleService ''8'' ''10.0.0.1'' [] ''selector: web'' ''web'')))])
            (snd (snd (update sampleLib quietClient
               (ServiceObj (sampleService [] [] [] ''selector: web'' ''web'')) True serviceMapping
               (emptyState
                 [Inr (IsKubeObject (ServiceObj (sampleService ''7'' ''10.0.0.1'' [] ''selector: old'' ''web''))),
                  Inr (IsKubeObject (ServiceObj (sampleService ''8'' ''10.0.0.1'' [] ''selector: web'' ''web''))),
                  Inr (IsKubeObject (ServiceObj (sampleService ''8'' ''10.0.0.1'' [] ''selector: web'' ''web'')))])))))
     = 1
   \<and> \<not> storedAsSent (ServiceObj (sampleService ''7'' ''10.0.0.1'' [] ''selector: old'' ''web''))
         (ServiceObj (sampleService [] [] [] ''selector: web'' ''web''))
   \<and> storedAsSent (ServiceObj (sampleService ''8'' ''10.0.0.1'' [] ''selector: web'' ''web''))
       (ServiceObj (sampleService [] [] [] ''selector: web'' ''web''))
   \<and> (let stA = snd (snd (update sampleLib quietClient
               (ServiceObj (sampleService [] [] [] ''selector: web'' ''web'')) True serviceMapping
               (emptyState
                 [Inr (IsKubeObject (ServiceObj (sampleService ''7'' ''10.0.0.1'' [] ''selector: old'' ''web''))),
                  Inr (IsKubeObject (ServiceObj (sampleService ''8'' ''10.0.0.1'' [] ''selector: web'' ''web''))),
                  Inr (IsKubeObject (ServiceObj (sampleService ''8'' ''10.0.0.1'' [] ''selector: web'' ''web'')))])))
        in patchRequests
             (since stA
                (snd (snd (update sampleLib quietClient
                   (ServiceObj (sampleService ''7'' ''10.0.0.1'' [] ''selector: web'' ''web''))
                   True serviceMapping stA)))) = 0
           \<and> fst (update sampleLib quietClient
                   (ServiceObj (sampleService ''7'' ''10.0.0.1'' [] ''selector: web'' ''web''))
                   True serviceMapping stA)
               = Inr (ServiceObj (sampleService ''8'' ''10.0.0.1'' [] ''selector: web'' ''web'')))"
proof -
  let ?live1 = "ServiceObj (sampleService ''7'' ''10.0.0.1'' [] ''selector: old'' ''web'')"
  let ?live2 = "ServiceObj (sampleService ''8'' ''10.0.0.1'' [] ''selector: web'' ''web'')"
  let ?obj = "ServiceObj (sampleService [] [] [] ''selector: web'' ''web'')"
  let ?obj1 = "ServiceObj (sampleService ''7'' ''10.0.0.1'' [] ''selector: web'' ''web'')"
  let ?st = "emptyState [Inr (IsKubeObject ?live1), Inr (IsKubeObject ?live2), Inr (IsKubeObject ?live2)]"
  let ?greq = "\<lparr>verb = GET, reqName = ''web'', reqNamespace = Some ''prod'',
                 reqResource = ''services'', params = [(''export'', ''true'')], body = NoBody\<rparr>"
  let ?preq = "\<lparr>verb = PATCH StrategicMergePatchType, reqName = ''web'',
                 reqNamespace = Some ''prod'', reqResource = ''services'', params = [],
                 body = BytesBody ''Service/web''\<rparr>"
  let ?st1 = "\<lparr>world = [Inr (IsKubeObject ?live2), Inr (IsKubeObject ?live2)],
               trace = [RestDo ?greq (Inr (IsKubeObject ?live1))]\<rparr>"
  let ?stA = "\<lparr>world = [Inr (IsKubeObject ?live2)],
               trace = [RestDo ?greq (Inr (IsKubeObject ?live1)),
                        RestDo ?preq (Inr (IsKubeObject ?live2))]\<rparr>"
  let ?stB = "\<lparr>world = [] :: (string + RuntimeObject) list,
               trace = [RestDo ?greq (Inr (IsKubeObject ?live1)),
                        RestDo ?preq (Inr (IsKubeObject ?live2)),
                        RestDo ?greq (Inr (IsKubeObject ?live2))]\<rparr>"
  have g1: "get quietClient (Namespace (GetObjectMeta ?obj)) (Name (GetObjectMeta ?obj)) True
              serviceMapping ?st = (Inr ?live1, ?st1)"
    by (simp add: eval_defs)
  have c1: "copyImmutables ?live1
              (SetResourceVersion ?obj (ResourceVersion (GetObjectMeta ?live1))) = Inr ?obj1"
    by (simp add: eval_defs)
  have d: "diff sampleLib ?live1 ?obj1 = Inr ''Service/web''" by (simp add: eval_defs)
  have u1: "update sampleLib quietClient ?obj True serviceMapping ?st = (Inr ?live2, ?obj1, ?stA)"
    by (simp add: eval_defs)
  have g2: "get quietClient (Namespace (GetObjectMeta ?obj)) (Name (GetObjectMeta ?obj)) True
              serviceMapping ?stA = (Inr ?live2, ?stB)"
    by (simp add: eval_defs)
  have c2: "copyImmutables ?live2
              (SetResourceVersion ?obj1 (ResourceVersion (GetObjectMeta ?live2))) = Inr ?live2"
    by (simp add: eval_defs)
  have nd1: "\<not> storedAsSent ?live1 ?obj"
    by (simp add: storedAsSent_def sample_defs)
  have nd2: "storedAsSent ?live2 ?obj"
    by (simp add: storedAsSent_def sample_defs)
  have u2: "update sampleLib quietClient ?obj1 True serviceMapping ?stA = (Inr ?live2, ?live2, ?stB)"
    by (simp add: eval_defs)
  from update_twice_patches_once[THEN conjunct2, rule_format, OF g1 c1 u1 g2 c2 u2]
  show ?thesis using nd1 nd2 d by (simp add: u1 u2 Let_def)
qed

text \<open>
  The same desired service applied twice against a cluster that nobody else changes and
  that keeps the type \<open>ClusterIP\<close> of the service, which the desired service does not
  name. What the second fetch returns is what the first patch returned, and the second
  call takes the desired service and the state as the first call left them. Both calls
  find the desired service different from the live one, and both send a patch.
\<close>

theorem update_twice_patches_twice:
  "update diffLib quietClient
      (ServiceObj (sampleService [] [] [] ''selector: web'' ''web'')) True serviceMapping
      (emptyState
         [Inr (IsKubeObject (ServiceObj (sampleService ''7'' ''10.0.0.1'' ''ClusterIP'' ''selector: web'' ''web''))),
          Inr (IsKubeObject (ServiceObj (sampleService ''8'' ''10.0.0.1'' ''ClusterIP'' ''selector: web'' ''web''))),
          Inr (IsKubeObject (ServiceObj (sampleService ''8'' ''10.0.0.1'' ''ClusterIP'' ''selector: web'' ''web''))),
          Inr (IsKubeObject (ServiceObj (sampleService ''9'' ''10.0.0.1'' ''ClusterIP'' ''selector: web'' ''web'')))])
    = (Inr (ServiceObj (sampleService ''8'' ''10.0.0.1'' ''ClusterIP'' ''selector: web'' ''web'')),
       ServiceObj (sampleService ''7'' ''10.0.0.1'' [] ''selector: web'' ''web''),
       \<lparr>world =
          [Inr (IsKubeObject (ServiceObj (sampleService ''8'' ''10.0.0.1'' ''ClusterIP'' ''selector: web'' ''web''))),
           Inr (IsKubeObject (ServiceObj (sampleService ''9'' ''10.0.0.1'' ''ClusterIP'' ''selector: web'' ''web'')))],
        trace =
          [RestDo \<lparr>verb = GET, reqName = ''web'', reqNamespace = Some ''prod'',
                   reqResource = ''services'', params = [(''export'', ''true'')],
                   body = NoBody\<rparr>
             (Inr (IsKubeObject (ServiceObj (sampleService ''7'' ''10.0.0.1'' ''ClusterIP'' ''selector: web'' ''web'')))),
           RestDo \<lparr>verb = PATCH StrategicMergePatchType, reqName = ''web'',
                   reqNamespace = Some ''prod'', reqResource = ''services'', params = [],
                   body = BytesBody
                     ''Service/web {ClusterIP selector: web} -> Service/web { selector: web}''\<rparr>
             (Inr (IsKubeObject (ServiceObj (sampleService ''8'' ''10.0.0.1'' ''ClusterIP'' ''selector: web'' ''web''))))]\<rparr>)
   \<and> update diffLib quietClient
      (ServiceObj (sampleService ''7'' ''10.0.0.1'' [] ''selector: web'' ''web'')) True serviceMapping
      \<lparr>world =
          [Inr (IsKubeObject (ServiceObj (sampleService ''8'' ''10.0.0.1'' ''ClusterIP'' ''selector: web'' ''web''))),
           Inr (IsKubeObject (ServiceObj (sampleService ''9'' ''10.0.0.1'' ''ClusterIP'' ''selector: web'' ''web'')))],
       trace =
          [RestDo \<lparr>verb = GET, reqName = ''web'', reqNamespace = Some ''prod'',
                   reqResource = ''services'', params = [(''export'', ''true'')],
                   body = NoBody\<rparr>
             (Inr (IsKubeObject (ServiceObj (sampleService ''7'' ''10.0.0.1'' ''ClusterIP'' ''selector: web'' ''web'')))),
           RestDo \<lparr>verb = PATCH StrategicMergePatchType, reqName = ''web'',
                   reqNamespace = Some ''prod'', reqResource = ''services'', params = [],
                   body = BytesBody
                     ''Service/web {ClusterIP selector: web} -> Service/web { selector: web}''\<rparr>
             (Inr (IsKubeObject (ServiceObj (sampleService ''8'' ''10.0.0.1'' ''ClusterIP'' ''selector: web'' ''web''))))]\<rparr>
    = (Inr (ServiceObj (sampleService ''9'' ''10.0.0.1'' ''ClusterIP'' ''selector: web'' ''web'')),
       ServiceObj (sampleService ''8'' ''10.0.0.1'' [] ''selector: web'' ''web''),
       \<lparr>world = [],
        trace =
          [RestDo \<lparr>verb = GET, reqName = ''web'', reqNamespace = Some ''prod'',
                   reqResource = ''services'', params = [(''export'', ''true'')],
                   body = NoBody\<rparr>
             (Inr (IsKubeObject (ServiceObj (sampleService ''7'' ''10.0.0.1'' ''ClusterIP'' ''selector: web'' ''web'')))),
           RestDo \<lparr>verb = PATCH StrategicMergePatchType, reqName = ''web'',
                   reqNamespace = Some ''prod'', reqResource = ''services'', params = [],
                   body = BytesBody
                     ''Service/web {ClusterIP selector: web} -> Service/web { selector: web}''\<rparr>
             (Inr (IsKubeObject (ServiceObj (sampleService ''8'' ''10.0.0.1'' ''ClusterIP'' ''selector: web'' ''web'')))),
           RestDo \<lparr>verb = GET, reqName = ''web'', reqNamespace = Some ''prod'',
                   reqResource = ''services'', params = [(''export'', ''true'')],
                   body = NoBody\<rparr>
             (Inr (IsKubeObject (ServiceObj (sampleService ''8'' ''10.0.0.1'' ''ClusterIP'' ''selector: web'' ''web'')))),
           RestDo \<lparr>verb = PATCH StrategicMergePatchType, reqName = ''web'',
                   reqNamespace = Some ''prod'', reqResource = ''services'', params = [],
                   body = BytesBody
                     ''Service/web {ClusterIP selector: web} -> Service/web { selector: web}''\<rparr>
             (Inr (IsKubeObject (ServiceObj (sampleService ''9'' ''10.0.0.1'' ''ClusterIP'' ''selector: web'' ''web''))))]\<rparr>)"
  by (simp add: update_def get_def create_def call_defs sample_defs resourceError_def
        request_defs doesNotExist_def errorOf_def liftError_def AsKubeObject_def
        copyImmutables_def DeepEqual_def diff_def Let_def)

lemma copyImmutables_Service:
  "copyImmutables (ServiceObj s) (ServiceObj d)
     = Inr (ServiceObj (d\<lparr>Spec := (Spec d)\<lparr>ClusterIP := ClusterIP (Spec s)\<rparr>\<rparr>))"
  by (simp add: copyImmutables_def)

text \<open>
  Claim C6. For a service, \<open>copyImmutables\<close> writes the cluster address of the live object
  into the desired object before the two are compared and diffed. So when the fetch returns
  a live service: the desired object leaves \<open>update\<close> with the live cluster address; what
  \<open>update\<close> returns and what it sends do not depend on the cluster address the desired
  object came with; and every request sent after the fetch is a patch computed by \<open>diff\<close>
  from the live object and an object that carries the live cluster address.
\<close>

theorem update_keeps_live_cluster_ip:
  assumes "get cl (Namespace (Meta d)) (Name (Meta d)) True m st = (Inr (ServiceObj s), st1)"
  shows "copyImmutables (ServiceObj s) (ServiceObj d)
           = Inr (ServiceObj (d\<lparr>Spec := (Spec d)\<lparr>ClusterIP := ClusterIP (Spec s)\<rparr>\<rparr>))
    \<and> (\<exists>d2. fst (snd (update L cl (ServiceObj d) createFlag m st)) = ServiceObj d2
              \<and> ClusterIP (Spec d2) = ClusterIP (Spec s))
    \<and> update L cl (ServiceObj (d\<lparr>Spec := (Spec d)\<lparr>ClusterIP := ip\<rparr>\<rparr>)) createFlag m st
         = update L cl (ServiceObj d) createFlag m st
    \<and> (\<forall>req resp.
          RestDo req resp \<in> set (since st1 (snd (snd (update L cl (ServiceObj d) createFlag m st))))
          \<longrightarrow> (\<exists>patch d2. body req = BytesBody patch
                  \<and> diff L (ServiceObj s) (ServiceObj d2) = Inr patch
                  \<and> ClusterIP (Spec d2) = ClusterIP (Spec s)))"
proof -
  let ?d2 = "d\<lparr>Meta := (Meta d)\<lparr>ResourceVersion := ResourceVersion (Meta s)\<rparr>,
               Spec := (Spec d)\<lparr>ClusterIP := ClusterIP (Spec s)\<rparr>\<rparr>"
  have c: "copyImmutables (ServiceObj s)
             (SetResourceVersion (ServiceObj d) (ResourceVersion (GetObjectMeta (ServiceObj s))))
           = Inr (ServiceObj ?d2)"
    by (simp add: copyImmutables_def)
  have g: "get cl (Namespace (GetObjectMeta (ServiceObj d))) (Name (GetObjectMeta (ServiceObj d)))
             True m st = (Inr (ServiceObj s), st1)"
    using assms by simp
  have obj: "fst (snd (update L cl (ServiceObj d) createFlag m st)) = ServiceObj ?d2"
    using update_result_object[OF g c] .
  have indep: "update L cl (ServiceObj (d\<lparr>Spec := (Spec d)\<lparr>ClusterIP := ip\<rparr>\<rparr>)) createFlag m st
         = update L cl (ServiceObj d) createFlag m st"
    using assms by (simp add: update_def Let_def copyImmutables_def errorOf_def doesNotExist_def)
  have patch: "\<forall>req resp.
          RestDo req resp \<in> set (since st1 (snd (snd (update L cl (ServiceObj d) createFlag m st))))
          \<longrightarrow> (\<exists>patch d2. body req = BytesBody patch
                  \<and> diff L (ServiceObj s) (ServiceObj d2) = Inr patch
                  \<and> ClusterIP (Spec d2) = ClusterIP (Spec s))"
  proof (cases "DeepEqual (ServiceObj ?d2) (ServiceObj s)")
    case True
    from update_equal_case[OF g c True, of L createFlag]
    show ?thesis by (simp add: since_def)
  next
    case False
    show ?thesis
    proof (cases "diff L (ServiceObj s) (ServiceObj ?d2)")
      case (Inl err)
      then have "snd (snd (update L cl (ServiceObj d) createFlag m st)) = st1"
        using g c False by (simp add: update_def Let_def errorOf_def doesNotExist_def)
      then show ?thesis by (simp add: since_def)
    next
      case (Inr patch)
      from update_patch_case[OF g c False Inr, of createFlag]
      show ?thesis
        using Inr by (auto simp: since_def request_defs intro!: exI[of _ ?d2])
    qed
  qed
  show ?thesis using copyImmutables_Service obj indep patch by simp
qed

theorem update_keeps_live_cluster_ip_witness:
  "get quietClient ''prod'' ''web'' True serviceMapping
      (emptyState
         [Inr (IsKubeObject (ServiceObj (sampleService ''7'' ''10.0.0.1'' [] ''selector: old'' ''web''))),
          Inr (IsKubeObject (ServiceObj (sampleService ''8'' ''10.0.0.1'' [] ''selector: web'' ''web'')))])
     = (Inr (ServiceObj (sampleService ''7'' ''10.0.0.1'' [] ''selector: old'' ''web'')),
        \<lparr>world = [Inr (IsKubeObject (ServiceObj (sampleService ''8'' ''10.0.0.1'' [] ''selector: web'' ''web'')))],
         trace = [RestDo \<lparr>verb = GET, reqName = ''web'', reqNamespace = Some ''prod'',
                          reqResource = ''services'', params = [(''export'', ''true'')],
                          body = NoBody\<rparr>
                    (Inr (IsKubeObject (ServiceObj (sampleService ''7'' ''10.0.0.1'' [] ''selector: old'' ''web''))))]\<rparr>)
   \<and> fst (snd (update sampleLib quietClient
                  (ServiceObj (sampleService [] ''10.9.9.9'' [] ''selector: web'' ''web''))
                  True serviceMapping
                  (emptyState
                     [Inr (IsKubeObject (ServiceObj (sampleService ''7'' ''10.0.0.1'' [] ''selector: old'' ''web''))),
                      Inr (IsKubeObject (ServiceObj (sampleService ''8'' ''10.0.0.1'' [] ''selector: web'' ''web'')))])))
       = ServiceObj (sampleService ''7'' ''10.0.0.1'' [] ''selector: web'' ''web'')
   \<and> update sampleLib quietClient
        (ServiceObj (sampleService [] ''10.9.9.9'' [] ''selector: web'' ''web''))
        True serviceMapping
        (emptyState
           [Inr (IsKubeObject (ServiceObj (sampleService ''7'' ''10.0.0.1'' [] ''selector: old'' ''web''))),
            Inr (IsKubeObject (ServiceObj (sampleService ''8'' ''10.0.0.1'' [] ''selector: web'' ''web'')))])
       = update sampleLib quietClient
          (ServiceObj (sampleService [] ''10.0.0.1'' [] ''selector: web'' ''web''))
          True serviceMapping
          (emptyState
           [Inr (IsKubeObject (ServiceObj (sampleService ''7'' ''10.0.0.1'' [] ''selector: old'' ''web''))),
            Inr (IsKubeObject (ServiceObj (sampleService ''8'' ''10.0.0.1'' [] ''selector: web'' ''web'')))])"
proof -
  let ?st = "emptyState
         [Inr (IsKubeObject (ServiceObj (sampleService ''7'' ''10.0.0.1'' [] ''selector: old'' ''web''))),
          Inr (IsKubeObject (ServiceObj (sampleService ''8'' ''10.0.0.1'' [] ''selector: web'' ''web'')))]"
  let ?st1 = "\<lparr>world = [Inr (IsKubeObject (ServiceObj (sampleService ''8'' ''10.0.0.1'' [] ''selector: web'' ''web'')))],
         trace = [RestDo \<lparr>verb = GET, reqName = ''web'', reqNamespace = Some ''prod'',
                          reqResource = ''services'', params = [(''export'', ''true'')],
                          body = NoBody\<rparr>
                    (Inr (IsKubeObject (ServiceObj (sampleService ''7'' ''10.0.0.1'' [] ''selector: old'' ''web''))))]\<rparr>"
  have g: "get quietClient (Namespace (Meta (sampleService [] ''10.9.9.9'' [] ''selector: web'' ''web'')))
             (Name (Meta (sampleService [] ''10.9.9.9'' [] ''selector: web'' ''web''))) True
             serviceMapping ?st
           = (Inr (ServiceObj (sampleService ''7'' ''10.0.0.1'' [] ''selector: old'' ''web'')), ?st1)"
    by (simp add: eval_defs)
  from update_keeps_live_cluster_ip[OF g, of sampleLib True "''10.0.0.1''"]
  show ?thesis
    using g by (simp add: eval_defs)
qed

section \<open>The convergence monitor\<close>

lemma extends_refl [simp]: "extends Q st st"
  by (simp add: extends_def)

lemma extends_trans:
  assumes "extends Q st st1" and "extends Q st1 st2"
  shows "extends Q st st2"
  using assms by (auto simp: extends_def)

lemma extends_since:
  assumes "extends Q st st'"
  shows "trace st' = trace st @ since st st'" and "list_all Q (since st st')"
  using assms by (auto simp: extends_def since_def)

lemma extends_mono:
  assumes "extends Q st st'" and "\<And>e. Q e \<Longrightarrow> R e"
  shows "extends R st st'"
  using assms by (auto simp: extends_def list_all_iff)

lemma extends_print [simp]: "extends Q st (print line st) = Q (Printed line)"
  by (auto simp: extends_def print_def)

lemma extends_sleep [simp]: "extends Q st (sleep ms st) = Q (Slept ms)"
  by (auto simp: extends_def sleep_def)

lemma world_print [simp]: "world (print line st) = world st"
  by (simp add: print_def)

lemma trace_print [simp]: "trace (print line st) = trace st @ [Printed line]"
  by (simp add: print_def)

lemma printPorts_eq:
  "printPorts s ports st =
     st\<lparr>trace := trace st @ map (\<lambda>port. Printed
            (apostrophe @ Namespace (Meta s) @ ''/'' @ Name (Meta s) @ apostrophe @ '' - ''
             @ PortName port @ '' available on localkube host port:'' @ tab @ '' ''
             @ showInt (NodePort port) @ newline)) ports\<rparr>"
  by (induction ports arbitrary: st) (simp_all add: print_def)

lemma printIngress_eq:
  "printIngress s lbs (completed, st) =
     ((if lbs = [] then completed else completed(Name (Meta s) := True)),
      st\<lparr>trace := trace st @ map (\<lambda>lb. Printed
            (''Service '' @ apostrophe @ Namespace (Meta s) @ ''/'' @ Name (Meta s) @ apostrophe
             @ '' available at: '' @ tab @ ingressHost lb @ newline)) lbs\<rparr>)"
  by (induction lbs arbitrary: completed st) (simp_all add: print_def)

lemma ingressHost_cases:
  "(IP lb \<noteq> [] \<and> Hostname lb \<noteq> [] \<longrightarrow> ingressHost lb = Hostname lb @ '' ('' @ IP lb @ '')'')
   \<and> (IP lb \<noteq> [] \<and> Hostname lb = [] \<longrightarrow> ingressHost lb = IP lb)
   \<and> (IP lb = [] \<longrightarrow> ingressHost lb = Hostname lb)"
  by (simp add: ingressHost_def Let_def)

lemma pollService_fetched:
  assumes "servicesGet cl (Namespace (Meta s)) (Name (Meta s)) (world st) = ((cv, err), w)"
  shows "pollService cl isLocalkube s (completed, st) =
     (Inr (),
      printIngress s (Ingress (Status cv))
        ((if isLocalkube then completed(Name (Meta s) := True) else completed),
         (if isLocalkube then printPorts s (Ports (Spec cv)) else (\<lambda>x. x))
           ((case err of
               Some e \<Rightarrow> print (''Error getting service '' @ backquote @ Name (Meta s)
                                 @ backquote @ '': '' @ e @ newline)
             | None \<Rightarrow> (\<lambda>x. x))
            \<lparr>world = w,
             trace = trace st @ [ServicesGet (Namespace (Meta s)) (Name (Meta s)) cv err]\<rparr>)))"
  using assms
  by (cases err; cases isLocalkube)
     (simp_all add: pollService_def callServicesGet_def Let_def split: prod.splits)

text \<open>
  Claim C8. When the monitor polls a load balancer service and the fetch returns an object,
  every ingress point of that object marks the service completed and is printed on a line
  of its own, in order, at the end of the output of this poll. What is printed for an
  ingress point is its hostname followed by its IP in parentheses when it has both, and
  its IP alone when the hostname is empty (and the hostname alone when it has no IP).
\<close>

theorem ingress_points_complete_and_report:
  assumes "servicesGet cl (Namespace (Meta s)) (Name (Meta s)) (world st) = ((cv, err), w)"
  shows "\<exists>completed' st'.
      pollService cl isLocalkube s (completed, st) = (Inr (), completed', st')
    \<and> (Ingress (Status cv) \<noteq> [] \<longrightarrow> completed' (Name (Meta s)))
    \<and> (\<exists>pre. trace st' = pre @ map (\<lambda>lb. Printed
            (''Service '' @ apostrophe @ Namespace (Meta s) @ ''/'' @ Name (Meta s) @ apostrophe
             @ '' available at: '' @ tab @ ingressHost lb @ newline)) (Ingress (Status cv)))
    \<and> (\<forall>lb \<in> set (Ingress (Status cv)).
          (IP lb \<noteq> [] \<and> Hostname lb \<noteq> [] \<longrightarrow>
             ingressHost lb = Hostname lb @ '' ('' @ IP lb @ '')'')
        \<and> (IP lb \<noteq> [] \<and> Hostname lb = [] \<longrightarrow> ingressHost lb = IP lb)
        \<and> (IP lb = [] \<longrightarrow> ingressHost lb = Hostname lb))"
  unfolding pollService_fetched[OF assms] printIngress_eq
  using ingressHost_cases by auto

lemma isDone_first_load_balancer:
  assumes "Type (Spec s) = ServiceTypeLoadBalancer"
  shows "isDone (\<lambda>name. False) (ServiceObj s # rest) = Inr False"
  using assms by simp

text \<open>A fetch that fails returns the empty service: the poll prints the error and no more.\<close>

lemma pollService_failed:
  assumes "servicesGet cl (Namespace (Meta s)) (Name (Meta s)) (world st)
             = ((emptyService, Some e), w)"
  shows "pollService cl isLocalkube s (completed, st) =
     (Inr (),
      (if isLocalkube then completed(Name (Meta s) := True) else completed),
      \<lparr>world = w,
       trace = trace st
         @ [ServicesGet (Namespace (Meta s)) (Name (Meta s)) emptyService (Some e),
            Printed (''Error getting service '' @ backquote @ Name (Meta s)
                     @ backquote @ '': '' @ e @ newline)]\<rparr>)"
  unfolding pollService_fetched[OF assms]
  by (simp add: emptyService_def print_def)

text \<open>A list of services, as the monitor expects it.\<close>

lemma isDone_services:
  assumes "\<forall>svcObj \<in> set services. \<exists>s. svcObj = ServiceObj s"
  shows "\<exists>b. isDone completed services = Inr b"
  using assms by (induction services) auto

lemma isDone_pending:
  assumes "\<forall>svcObj \<in> set services. \<exists>s. svcObj = ServiceObj s"
    and "ServiceObj s \<in> set services"
    and "Type (Spec s) = ServiceTypeLoadBalancer" and "\<not> completed (Name (Meta s))"
  shows "isDone completed services = Inr False"
  using assms by (induction services) auto

lemma pollService_returns:
  "fst (pollService cl isLocalkube s cs) = Inr ()"
proof -
  obtain completed st where cs: "cs = (completed, st)" by (cases cs)
  obtain cv err w where
    g: "servicesGet cl (Namespace (Meta s)) (Name (Meta s)) (world st) = ((cv, err), w)"
    by (metis surj_pair)
  show ?thesis
    unfolding cs pollService_fetched[OF g] by simp
qed

lemma pollRound_returns:
  assumes "\<forall>svcObj \<in> set svcs. \<exists>s. svcObj = ServiceObj s"
  shows "fst (pollRound cl isLocalkube svcs cs) = Inr ()"
  using assms
proof (induction svcs arbitrary: cs)
  case Nil
  then show ?case by simp
next
  case (Cons svcObj rest)
  then obtain s where s: "svcObj = ServiceObj s" by auto
  have ih: "fst (pollRound cl isLocalkube rest cs') = Inr ()" for cs'
    using Cons.IH Cons.prems by simp
  obtain r cs1 where p: "pollService cl isLocalkube s cs = (r, cs1)" by (metis surj_pair)
  have "r = Inr ()" using pollService_returns[of cl isLocalkube s cs] p by simp
  then show ?case using s p ih by simp
qed

lemma pollLoop_no_panic:
  assumes "\<forall>svcObj \<in> set services. \<exists>s. svcObj = ServiceObj s"
  shows "fst (pollLoop fuel cl services isLocalkube first completed st) = Inr ()
       \<or> fst (pollLoop fuel cl services isLocalkube first completed st) = Inl OutOfFuel"
proof (induction fuel arbitrary: first completed st)
  case 0
  then show ?case by simp
next
  case (Suc fuel)
  from isDone_services[OF assms] obtain b where b: "isDone completed services = Inr b" by blast
  show ?case
  proof (cases b)
    case True
    then show ?thesis using b by simp
  next
    case False
    let ?st1 = "if first then print (''Waiting for load balancer deployment...'' @ newline) st
                else st"
    obtain r completed1 st2 where
      p: "pollRound cl isLocalkube services (completed, ?st1) = (r, completed1, st2)"
      by (metis prod_cases3)
    have r: "r = Inr ()"
      using pollRound_returns[OF assms, of cl isLocalkube "(completed, ?st1)"] p by simp
    have "pollLoop (Suc fuel) cl services isLocalkube first completed st
            = pollLoop fuel cl services isLocalkube False completed1 (sleep 250 st2)"
      using b False p r by (simp add: Let_def)
    then show ?thesis using Suc.IH by simp
  qed
qed

text \<open>A cluster whose every fetch of a service fails.\<close>

lemma pollRound_failing:
  assumes "\<forall>ns name w. \<exists>e w'. servicesGet cl ns name w = ((emptyService, Some e), w')"
    and "\<forall>svcObj \<in> set svcs. \<exists>s. svcObj = ServiceObj s"
  shows "\<exists>st'. pollRound cl False svcs (completed, st) = (Inr (), completed, st')"
  using assms(2)
proof (induction svcs arbitrary: st)
  case Nil
  then show ?case by simp
next
  case (Cons svcObj rest)
  then obtain s where s: "svcObj = ServiceObj s" by auto
  have ih: "\<exists>st'. pollRound cl False rest (completed, st1) = (Inr (), completed, st')" for st1
    using Cons.IH Cons.prems by simp
  show ?case
  proof (cases "Type (Spec s) = ServiceTypeLoadBalancer \<and> \<not> completed (Name (Meta s))")
    case True
    from assms(1) obtain e w where
      g: "servicesGet cl (Namespace (Meta s)) (Name (Meta s)) (world st)
            = ((emptyService, Some e), w)"
      by blast
    show ?thesis
      using True s ih by (simp add: pollService_failed[OF g])
  next
    case False
    then show ?thesis using s ih[of st] by auto
  qed
qed

lemma pollLoop_failing:
  assumes "\<forall>ns name w. \<exists>e w'. servicesGet cl ns name w = ((emptyService, Some e), w')"
    and "\<forall>svcObj \<in> set services. \<exists>s. svcObj = ServiceObj s"
    and "ServiceObj s \<in> set services" and "Type (Spec s) = ServiceTypeLoadBalancer"
    and "\<not> completed (Name (Meta s))"
  shows "fst (pollLoop fuel cl services False first completed st) = Inl OutOfFuel"
proof (induction fuel arbitrary: first st)
  case 0
  then show ?case by simp
next
  case (Suc fuel)
  have d: "isDone completed services = Inr False"
    using assms(2,3,4,5) by (rule isDone_pending)
  let ?st1 = "if first then print (''Waiting for load balancer deployment...'' @ newline) st
              else st"
  from pollRound_failing[OF assms(1,2), of completed ?st1] obtain st2 where
    p: "pollRound cl False services (completed, ?st1) = (Inr (), completed, st2)" by blast
  have "pollLoop (Suc fuel) cl services False first completed st
          = pollLoop fuel cl services False False completed (sleep 250 st2)"
    using d p by (simp add: Let_def)
  then show ?case using Suc.IH by simp
qed

text \<open>
  Claim C10, as the program behaves. The polling loop does not skip a service whose fetch
  returned an error: it prints the error and goes on to read the object the fetch
  returned, exactly as it reads it when there is no error. The client never returns a nil
  object, so the read dereferences nothing that is nil: polling a service always returns,
  and the monitor of a list of services never panics (it returns, or is still polling
  when the fuel is used up). On a failed request the object is the empty service, which
  has no ports and no ingress points: after the line with the error nothing more is
  printed, and the service is marked completed under localkube and left as it was
  otherwise. So outside localkube, against a cluster whose every fetch fails, the monitor
  of a list that holds a load balancer service fetches it again on every pass and has not
  returned when the fuel is used up, whatever the fuel.
\<close>

theorem failed_fetch_reads_returned_object:
  "(\<forall>cv err w.
       servicesGet cl (Namespace (Meta s)) (Name (Meta s)) (world st) = ((cv, err), w) \<longrightarrow>
       pollService cl isLocalkube s (completed, st)
         = (Inr (),
            printIngress s (Ingress (Status cv))
              ((if isLocalkube then completed(Name (Meta s) := True) else completed),
               (if isLocalkube then printPorts s (Ports (Spec cv)) else (\<lambda>x. x))
                 ((case err of
                     Some e \<Rightarrow> print (''Error getting service '' @ backquote @ Name (Meta s)
                                       @ backquote @ '': '' @ e @ newline)
                   | None \<Rightarrow> (\<lambda>x. x))
                  \<lparr>world = w,
                   trace = trace st
                     @ [ServicesGet (Namespace (Meta s)) (Name (Meta s)) cv err]\<rparr>))))
   \<and> (\<forall>e w.
       servicesGet cl (Namespace (Meta s)) (Name (Meta s)) (world st)
         = ((emptyService, Some e), w) \<longrightarrow>
       pollService cl isLocalkube s (completed, st)
         = (Inr (),
            (if isLocalkube then completed(Name (Meta s) := True) else completed),
            \<lparr>world = w,
             trace = trace st
               @ [ServicesGet (Namespace (Meta s)) (Name (Meta s)) emptyService (Some e),
                  Printed (''Error getting service '' @ backquote @ Name (Meta s)
                           @ backquote @ '': '' @ e @ newline)]\<rparr>))
   \<and> ((\<forall>svcObj \<in> set services. \<exists>s'. svcObj = ServiceObj s') \<longrightarrow>
        fst (printLoadBalancers cl services isLocalkube fuel st) = Inr ()
      \<or> fst (printLoadBalancers cl services isLocalkube fuel st) = Inl OutOfFuel)
   \<and> ((\<forall>ns name w. \<exists>e w'. servicesGet cl ns name w = ((emptyService, Some e), w')) \<longrightarrow>
      (\<forall>svcObj \<in> set services. \<exists>s'. svcObj = ServiceObj s') \<longrightarrow>
      ServiceObj s \<in> set services \<longrightarrow> Type (Spec s) = ServiceTypeLoadBalancer \<longrightarrow>
        fst (printLoadBalancers cl services False fuel st) = Inl OutOfFuel)"
proof (intro conjI allI impI)
  fix cv err w
  assume "servicesGet cl (Namespace (Meta s)) (Name (Meta s)) (world st) = ((cv, err), w)"
  then show "pollService cl isLocalkube s (completed, st)
         = (Inr (),
            printIngress s (Ingress (Status cv))
              ((if isLocalkube then completed(Name (Meta s) := True) else completed),
               (if isLocalkube then printPorts s (Ports (Spec cv)) else (\<lambda>x. x))
                 ((case err of
                     Some e \<Rightarrow> print (''Error getting service '' @ backquote @ Name (Meta s)
                                       @ backquote @ '': '' @ e @ newline)
                   | None \<Rightarrow> (\<lambda>x. x))
                  \<lparr>world = w,
                   trace = trace st
                     @ [ServicesGet (Namespace (Meta s)) (Name (Meta s)) cv err]\<rparr>)))"
    by (rule pollService_fetched)
next
  fix e w
  assume "servicesGet cl (Namespace (Meta s)) (Name (Meta s)) (world st)
            = ((emptyService, Some e), w)"
  then show "pollService cl isLocalkube s (completed, st)
         = (Inr (),
            (if isLocalkube then completed(Name (Meta s) := True) else completed),
            \<lparr>world = w,
             trace = trace st
               @ [ServicesGet (Namespace (Meta s)) (Name (Meta s)) emptyService (Some e),
                  Printed (''Error getting service '' @ backquote @ Name (Meta s)
                           @ backquote @ '': '' @ e @ newline)]\<rparr>)"
    by (rule pollService_failed)
next
  assume svcs: "\<forall>svcObj \<in> set services. \<exists>s'. svcObj = ServiceObj s'"
  show "fst (printLoadBalancers cl services isLocalkube fuel st) = Inr ()
      \<or> fst (printLoadBalancers cl services isLocalkube fuel st) = Inl OutOfFuel"
    using pollLoop_no_panic[OF svcs, of fuel cl isLocalkube True "\<lambda>name. False" st]
    by (simp add: printLoadBalancers_def del: pollLoop.simps)
next
  assume fail: "\<forall>ns name w. \<exists>e w'. servicesGet cl ns name w = ((emptyService, Some e), w')"
    and svcs: "\<forall>svcObj \<in> set services. \<exists>s'. svcObj = ServiceObj s'"
    and mem: "ServiceObj s \<in> set services"
    and lb: "Type (Spec s) = ServiceTypeLoadBalancer"
  have ne: "length services \<noteq> 0" using mem by auto
  have "fst (pollLoop fuel cl services False True (\<lambda>name. False) st) = Inl OutOfFuel"
    by (rule pollLoop_failing[OF fail svcs mem lb]) simp
  then show "fst (printLoadBalancers cl services False fuel st) = Inl OutOfFuel"
    using ne by (simp add: printLoadBalancers_def del: pollLoop.simps)
qed

lemmas monitor_defs = pollService_def printLoadBalancers_def ingressHost_def print_def sleep_def
  ServiceTypeLoadBalancer_def emptyService_def

theorem ingress_points_complete_and_report_witness:
  "fst (snd (pollService
       (scriptedClient None (Inr []) None
          ((sampleService [] [] ''LoadBalancer'' [] ''web'')
             \<lparr>Status := \<lparr>Ingress = [\<lparr>IP = ''1.2.3.4'', Hostname = ''lb.example.com''\<rparr>,
                                    \<lparr>IP = ''5.6.7.8'', Hostname = []\<rparr>]\<rparr>\<rparr>, None))
       False (sampleService [] [] ''LoadBalancer'' [] ''web'') (\<lambda>name. False, emptyState [])))
     ''web''
   \<and> trace (snd (snd (pollService
       (scriptedClient None (Inr []) None
          ((sampleService [] [] ''LoadBalancer'' [] ''web'')
             \<lparr>Status := \<lparr>Ingress = [\<lparr>IP = ''1.2.3.4'', Hostname = ''lb.example.com''\<rparr>,
                                    \<lparr>IP = ''5.6.7.8'', Hostname = []\<rparr>]\<rparr>\<rparr>, None))
       False (sampleService [] [] ''LoadBalancer'' [] ''web'') (\<lambda>name. False, emptyState []))))
     = [ServicesGet ''prod'' ''web''
          ((sampleService [] [] ''LoadBalancer'' [] ''web'')
             \<lparr>Status := \<lparr>Ingress = [\<lparr>IP = ''1.2.3.4'', Hostname = ''lb.example.com''\<rparr>,
                                    \<lparr>IP = ''5.6.7.8'', Hostname = []\<rparr>]\<rparr>\<rparr>) None,
        Printed (''Service '' @ apostrophe @ ''prod/web'' @ apostrophe @ '' available at: ''
                 @ tab @ ''lb.example.com (1.2.3.4)'' @ newline),
        Printed (''Service '' @ apostrophe @ ''prod/web'' @ apostrophe @ '' available at: ''
                 @ tab @ ''5.6.7.8'' @ newline)]"
proof -
  let ?cv = "(sampleService [] [] ''LoadBalancer'' [] ''web'')
                   \<lparr>Status := \<lparr>Ingress = [\<lparr>IP = ''1.2.3.4'', Hostname = ''lb.example.com''\<rparr>,
                                          \<lparr>IP = ''5.6.7.8'', Hostname = []\<rparr>]\<rparr>\<rparr>"
  let ?cl = "scriptedClient None (Inr []) None (?cv, None)"
  let ?s = "sampleService [] [] ''LoadBalancer'' [] ''web''"
  have g: "servicesGet ?cl (Namespace (Meta ?s)) (Name (Meta ?s))
             (world (emptyState ([] :: (string + RuntimeObject) list))) = ((?cv, None), [])"
    by (simp add: sample_defs)
  from ingress_points_complete_and_report[OF g, of False "\<lambda>name. False"]
  show ?thesis
    by (simp add: monitor_defs call_defs sample_defs)
qed

theorem failed_fetch_reads_returned_object_witness:
  "pollService (scriptedClient None (Inr []) None (emptyService, Some ''i/o timeout'')) False
       (sampleService [] [] ''LoadBalancer'' [] ''web'') (\<lambda>name. False, emptyState [])
     = (Inr (), (\<lambda>name. False),
        \<lparr>world = [],
         trace = [ServicesGet ''prod'' ''web'' emptyService (Some ''i/o timeout''),
                  Printed (''Error getting service '' @ backquote @ ''web'' @ backquote
                           @ '': i/o timeout'' @ newline)]\<rparr>)
   \<and> fst (printLoadBalancers
            (scriptedClient None (Inr []) None (emptyService, Some ''i/o timeout''))
            [ServiceObj (sampleService [] [] ''ClusterIP'' [] ''db''),
             ServiceObj (sampleService [] [] ''LoadBalancer'' [] ''web'')] False 7 (emptyState []))
       = Inl OutOfFuel"
proof -
  let ?cl = "scriptedClient None (Inr []) None (emptyService, Some ''i/o timeout'')"
  let ?s = "sampleService [] [] ''LoadBalancer'' [] ''web''"
  let ?services = "[ServiceObj (sampleService [] [] ''ClusterIP'' [] ''db''), ServiceObj ?s]"
  let ?st = "emptyState ([] :: (string + RuntimeObject) list)"
  have g: "servicesGet ?cl (Namespace (Meta ?s)) (Name (Meta ?s)) (world ?st)
           = ((emptyService, Some ''i/o timeout''), [])"
    by (simp add: sample_defs)
  have fail: "\<forall>ns name w. \<exists>e w'. servicesGet ?cl ns name w = ((emptyService, Some e), w')"
    by (simp add: sample_defs)
  have svcs: "\<forall>svcObj \<in> set ?services. \<exists>s'. svcObj = ServiceObj s'" by simp
  have mem: "ServiceObj ?s \<in> set ?services" by simp
  have lb: "Type (Spec ?s) = ServiceTypeLoadBalancer"
    by (simp add: sample_defs ServiceTypeLoadBalancer_def)
  note t = failed_fetch_reads_returned_object
             [where cl = ?cl and s = ?s and st = ?st and services = ?services and fuel = 7
                and isLocalkube = False and completed = "\<lambda>name. False"]
  have a: "pollService ?cl False ?s (\<lambda>name. False, ?st)
     = (Inr (), (\<lambda>name. False),
        \<lparr>world = [],
         trace = [ServicesGet ''prod'' ''web'' emptyService (Some ''i/o timeout''),
                  Printed (''Error getting service '' @ backquote @ ''web'' @ backquote
                           @ '': i/o timeout'' @ newline)]\<rparr>)"
    using t[THEN conjunct2, THEN conjunct1, rule_format, OF g] by (simp add: sample_defs)
  have b: "fst (printLoadBalancers ?cl ?services False 7 ?st) = Inl OutOfFuel"
    using t[THEN conjunct2, THEN conjunct2, THEN conjunct2, THEN mp, OF fail, THEN mp, OF svcs,
            THEN mp, OF mem, THEN mp, OF lb] .
  show ?thesis using a b by (intro conjI)
qed

text \<open>
  A run of the monitor against a cluster whose fetch fails: it reports the error, sleeps,
  and fetches again. With fuel for two passes it has fetched twice and has not returned.
\<close>

theorem failed_fetch_is_polled_again:
  "printLoadBalancers (scriptedClient None (Inr []) None (emptyService, Some ''i/o timeout''))
      [ServiceObj (sampleService [] [] ''LoadBalancer'' [] ''web'')] False 2 (emptyState [])
    = (Inl OutOfFuel,
       \<lparr>world = [],
        trace = [Printed (''Waiting for load balancer deployment...'' @ newline),
                 ServicesGet ''prod'' ''web'' emptyService (Some ''i/o timeout''),
                 Printed (''Error getting service '' @ backquote @ ''web'' @ backquote
                          @ '': i/o timeout'' @ newline),
                 Slept 250,
                 ServicesGet ''prod'' ''web'' emptyService (Some ''i/o timeout''),
                 Printed (''Error getting service '' @ backquote @ ''web'' @ backquote
                          @ '': i/o timeout'' @ newline),
                 Slept 250]\<rparr>)"
  by (simp add: printLoadBalancers_def pollService_def call_defs sample_defs print_def sleep_def
        ServiceTypeLoadBalancer_def emptyService_def numeral_2_eq_2)

lemma isDone_no_load_balancer:
  assumes "\<forall>svcObj \<in> set services. \<exists>s. svcObj = ServiceObj s \<and> Type (Spec s) \<noteq> ServiceTypeLoadBalancer"
  shows "isDone completed services = Inr True"
  using assms by (induction services) auto

lemma monitorEvent_ServicesGet:
  assumes "ServiceObj s \<in> set services" and "Type (Spec s) = ServiceTypeLoadBalancer"
  shows "monitorEvent services (ServicesGet (Namespace (Meta s)) (Name (Meta s)) obj err)"
  using assms by (auto simp: list_ex_iff intro!: bexI[of _ "ServiceObj s"])

lemma pollService_extends:
  assumes "ServiceObj s \<in> set services" and "Type (Spec s) = ServiceTypeLoadBalancer"
  shows "extends (monitorEvent services) st (snd (snd (pollService cl isLocalkube s (completed, st))))"
proof -
  obtain clusterVers err w where
    g: "servicesGet cl (Namespace (Meta s)) (Name (Meta s)) (world st) = ((clusterVers, err), w)"
    by (metis surj_pair)
  note m = monitorEvent_ServicesGet[OF assms]
  show ?thesis
    using g m
    by (cases err; cases isLocalkube)
       (auto simp: pollService_fetched printIngress_eq printPorts_eq extends_def print_def
                   list_all_iff)
qed

lemma pollRound_extends:
  assumes "set svcs \<subseteq> set services"
  shows "extends (monitorEvent services) (snd cs) (snd (snd (pollRound cl isLocalkube svcs cs)))"
  using assms
proof (induction svcs arbitrary: cs)
  case Nil
  then show ?case by simp
next
  case (Cons svcObj rest)
  obtain completed st where cs: "cs = (completed, st)" by (cases cs)
  show ?case
  proof (cases svcObj)
    case (ServiceObj s)
    show ?thesis
    proof (cases "Type (Spec s) = ServiceTypeLoadBalancer \<and> \<not> completed (Name (Meta s))")
      case True
      then have lb: "Type (Spec s) = ServiceTypeLoadBalancer" by simp
      have mem: "ServiceObj s \<in> set services" using Cons.prems ServiceObj by simp
      obtain r completed1 st1 where p: "pollService cl isLocalkube s (completed, st) = (r, completed1, st1)"
        by (metis prod_cases3)
      have e1: "extends (monitorEvent services) st st1"
        using pollService_extends[OF mem lb, of st cl isLocalkube completed] p by simp
      show ?thesis
      proof (cases r)
        case (Inl f)
        then show ?thesis using True ServiceObj cs p e1 by simp
      next
        case (Inr u)
        have "extends (monitorEvent services) st1
                (snd (snd (pollRound cl isLocalkube rest (completed1, st1))))"
          using Cons.IH[of "(completed1, st1)"] Cons.prems by simp
        then show ?thesis
          using True ServiceObj cs p e1 Inr by (auto intro: extends_trans)
      qed
    next
      case False
      then show ?thesis
        using Cons.IH[of cs] Cons.prems ServiceObj cs by auto
    qed
  qed (simp_all add: cs)
qed

lemma pollLoop_extends:
  "extends (monitorEvent services) st
     (snd (pollLoop fuel cl services isLocalkube first completed st))"
proof (induction fuel arbitrary: first completed st)
  case 0
  then show ?case by simp
next
  case (Suc fuel)
  show ?case
  proof (cases "isDone completed services")
    case (Inl f)
    then show ?thesis by simp
  next
    case (Inr b)
    show ?thesis
    proof (cases b)
      case True
      then show ?thesis using Inr by simp
    next
      case False
      let ?st1 = "if first then print (''Waiting for load balancer deployment...'' @ newline) st
                  else st"
      have e0: "extends (monitorEvent services) st ?st1" by simp
      obtain r completed1 st2 where
        p: "pollRound cl isLocalkube services (completed, ?st1) = (r, completed1, st2)"
        by (metis prod_cases3)
      have e1: "extends (monitorEvent services) ?st1 st2"
        using pollRound_extends[of services services "(completed, ?st1)" cl isLocalkube] p by simp
      have e2: "extends (monitorEvent services) st st2"
        using extends_trans[OF e0 e1] .
      show ?thesis
      proof (cases r)
        case (Inl f)
        then show ?thesis using Inr False p e2 by (simp add: Let_def)
      next
        case r: (Inr u)
        have e3: "extends (monitorEvent services) st2 (sleep 250 st2)" by simp
        have e4: "extends (monitorEvent services) (sleep 250 st2)
                    (snd (pollLoop fuel cl services isLocalkube False completed1 (sleep 250 st2)))"
          using Suc.IH .
        have "extends (monitorEvent services) st
                (snd (pollLoop fuel cl services isLocalkube False completed1 (sleep 250 st2)))"
          using extends_trans[OF e2 extends_trans[OF e3 e4]] .
        then show ?thesis using Inr False p r by (simp add: Let_def)
      qed
    qed
  qed
qed

text \<open>
  Claim C9. For a list of services none of which has type LoadBalancer, empty or not, the
  monitor returns at once: with fuel for one pass of the loop it returns, and the state is
  the one it started in, so it has fetched nothing, printed nothing and not slept. And for
  every list and every amount of fuel, whether or not the monitor returns, everything it
  does is to print, to sleep, or to fetch a service of the list that has type LoadBalancer.
\<close>

theorem monitor_waits_for_load_balancers_only:
  "((\<forall>svcObj \<in> set services.
        \<exists>s. svcObj = ServiceObj s \<and> Type (Spec s) \<noteq> ServiceTypeLoadBalancer) \<longrightarrow>
      printLoadBalancers cl services isLocalkube (Suc fuel) st = (Inr (), st))
   \<and> list_all (monitorEvent services)
        (since st (snd (printLoadBalancers cl services isLocalkube fuel' st)))"
proof
  show "(\<forall>svcObj \<in> set services.
        \<exists>s. svcObj = ServiceObj s \<and> Type (Spec s) \<noteq> ServiceTypeLoadBalancer) \<longrightarrow>
      printLoadBalancers cl services isLocalkube (Suc fuel) st = (Inr (), st)"
    by (simp add: printLoadBalancers_def isDone_no_load_balancer)
  have "extends (monitorEvent services) st
          (snd (printLoadBalancers cl services isLocalkube fuel' st))"
    by (simp add: printLoadBalancers_def pollLoop_extends del: pollLoop.simps)
  then show "list_all (monitorEvent services)
        (since st (snd (printLoadBalancers cl services isLocalkube fuel' st)))"
    by (rule extends_since(2))
qed

theorem monitor_waits_for_load_balancers_only_witness:
  "Type (Spec (sampleService [] [] ''ClusterIP'' [] ''web'')) \<noteq> ServiceTypeLoadBalancer
   \<and> printLoadBalancers (scriptedClient None (Inr []) None (emptyService, Some ''i/o timeout''))
        [ServiceObj (sampleService [] [] ''ClusterIP'' [] ''web''),
         ServiceObj (sampleService [] [] ''NodePort'' [] ''db'')] False 1 (emptyState [])
       = (Inr (), emptyState [])"
proof -
  have h: "\<forall>svcObj \<in> set [ServiceObj (sampleService [] [] ''ClusterIP'' [] ''web''),
                           ServiceObj (sampleService [] [] ''NodePort'' [] ''db'')].
             \<exists>s. svcObj = ServiceObj s \<and> Type (Spec s) \<noteq> ServiceTypeLoadBalancer"
    by (simp add: sample_defs ServiceTypeLoadBalancer_def)
  from monitor_waits_for_load_balancers_only[THEN conjunct1, THEN mp, OF h,
         of "scriptedClient None (Inr []) None (emptyService, Some ''i/o timeout'')" False 0
            "emptyState []"]
  show ?thesis
    by (simp add: sample_defs ServiceTypeLoadBalancer_def del: pollLoop.simps)
qed

section \<open>The namespace pass\<close>




section \<open>What deploying one object adds to the trace\<close>

lemma extends_callRestDo:
  assumes "callRestDo cl req st = (resp, st1)"
  shows "trace st1 = trace st @ [RestDo req resp]"
  using assms by (auto simp: callRestDo_def split: prod.splits)













section \<open>Shapes of traces\<close>





















text \<open>The second loop of \<open>Deploy\<close> passes over the namespaces of the bundle.\<close>

lemma deployOutcome_Nil [simp]: "deployOutcome L cl u d [] st = (Inr (), st)"
  by (simp add: deployOutcome_def)




section \<open>The whole deployment\<close>















end
